theory Spec2Isabelle
  imports Main "HOL-Library.Sublist" "HOL-Library.AList"
begin

section \<open>Go strings: bytes, UTF-8 and case\<close>

text \<open>
  A Go string is a sequence of bytes; \<^typ>\<open>string\<close> is a list of bytes (\<^typ>\<open>char\<close>).
  The functions of this section are the ones of Go's \<open>strings\<close>, \<open>unicode/utf8\<close> and
  \<open>fmt\<close> packages that the generator calls, written out for the arguments it passes.
\<close>

type_synonym rune = nat

definition byte :: "char \<Rightarrow> nat" where
  "byte c = of_char c"

definition RuneError :: rune where
  "RuneError = 65533"

definition isCont :: "nat \<Rightarrow> bool" where
  "isCont b = (128 \<le> b \<and> b \<le> 191)"

text \<open>utf8.DecodeRune on the bytes at the front of a string: the rune and its width.
  An invalid or truncated encoding decodes as (RuneError, 1).\<close>

fun decodeBytes :: "nat list \<Rightarrow> rune \<times> nat" where
  "decodeBytes [] = (RuneError, 0)"
| "decodeBytes (b0 # bs) =
     (if b0 < 128 then (b0, 1)
      else if 194 \<le> b0 \<and> b0 \<le> 223 then
        (case bs of
           b1 # _ \<Rightarrow>
             if isCont b1 then ((b0 - 192) * 64 + (b1 - 128), 2) else (RuneError, 1)
         | _ \<Rightarrow> (RuneError, 1))
      else if 224 \<le> b0 \<and> b0 \<le> 239 then
        (case bs of
           b1 # b2 # _ \<Rightarrow>
             if (if b0 = 224 then 160 else 128) \<le> b1 \<and> b1 \<le> (if b0 = 237 then 159 else 191)
                \<and> isCont b2
             then ((b0 - 224) * 4096 + (b1 - 128) * 64 + (b2 - 128), 3)
             else (RuneError, 1)
         | _ \<Rightarrow> (RuneError, 1))
      else if 240 \<le> b0 \<and> b0 \<le> 244 then
        (case bs of
           b1 # b2 # b3 # _ \<Rightarrow>
             if (if b0 = 240 then 144 else 128) \<le> b1 \<and> b1 \<le> (if b0 = 244 then 143 else 191)
                \<and> isCont b2 \<and> isCont b3
             then ((b0 - 240) * 262144 + (b1 - 128) * 4096 + (b2 - 128) * 64 + (b3 - 128), 4)
             else (RuneError, 1)
         | _ \<Rightarrow> (RuneError, 1))
      else (RuneError, 1))"

definition DecodeRuneInString :: "string \<Rightarrow> rune \<times> nat" where
  "DecodeRuneInString s = decodeBytes (map byte (take 4 s))"

text \<open>utf8.AppendRune: surrogates and values beyond U+10FFFF are written as U+FFFD.\<close>

definition EncodeRune :: "rune \<Rightarrow> string" where
  "EncodeRune r =
     map char_of
       (if r \<le> 127 then [r]
        else if r \<le> 2047 then [192 + r div 64, 128 + r mod 64]
        else if 1114111 < r \<or> (55296 \<le> r \<and> r \<le> 57343) then [239, 191, 189]
        else if r \<le> 65535 then [224 + r div 4096, 128 + (r div 64) mod 64, 128 + r mod 64]
        else [240 + r div 262144, 128 + (r div 4096) mod 64, 128 + (r div 64) mod 64,
              128 + r mod 64])"

text \<open>\<open>for _, c := range s\<close>: the runes of a string, an invalid byte read as RuneError.\<close>

function runes :: "string \<Rightarrow> rune list" where
  "runes [] = []"
| "runes (c # cs) =
     (case DecodeRuneInString (c # cs) of (r, w) \<Rightarrow> r # runes (drop (w - 1) cs))"
  by pat_completeness auto
termination
  by (relation "measure length") auto

text \<open>strings.Map for a mapping that never returns a negative rune: every rune read is
  written back as the encoding of its image.\<close>

definition Map_runes :: "(rune \<Rightarrow> rune) \<Rightarrow> string \<Rightarrow> string" where
  "Map_runes mapping s = concat (map (\<lambda>r. EncodeRune (mapping r)) (runes s))"

text \<open>
  unicode.ToLower. An ASCII letter is mapped by arithmetic. For every other code point
  Go reads the Unicode case tables, which are not part of this repository: the table is
  a parameter, the function from a code point beyond ASCII to its lower-case form.
\<close>

definition unicode_ToLower :: "(rune \<Rightarrow> rune) \<Rightarrow> rune \<Rightarrow> rune" where
  "unicode_ToLower caseTable r =
     (if r \<le> 127 then (if 65 \<le> r \<and> r \<le> 90 then r + 32 else r)
      else caseTable r)"

definition asciiLower :: "char \<Rightarrow> char" where
  "asciiLower c = (if 65 \<le> byte c \<and> byte c \<le> 90 then char_of (byte c + 32) else c)"

definition isASCII :: "string \<Rightarrow> bool" where
  "isASCII s = list_all (\<lambda>c. byte c < 128) s"

text \<open>strings.ToLower: a byte loop for ASCII-only strings, strings.Map otherwise.\<close>

definition ToLower :: "(rune \<Rightarrow> rune) \<Rightarrow> string \<Rightarrow> string" where
  "ToLower caseTable s =
     (if isASCII s then map asciiLower s else Map_runes (unicode_ToLower caseTable) s)"

text \<open>strings.ToValidUTF8: each run of bytes that are no valid UTF-8 is replaced by one
  copy of the replacement. The flag says that the previous byte was invalid.\<close>

function toValid :: "bool \<Rightarrow> string \<Rightarrow> string \<Rightarrow> string" where
  "toValid invalid replacement [] = []"
| "toValid invalid replacement (c # cs) =
     (if byte c < 128 then c # toValid False replacement cs
      else
        (case DecodeRuneInString (c # cs) of
           (r, w) \<Rightarrow>
             if w = 1 then
               (if invalid then [] else replacement) @ toValid True replacement cs
             else take w (c # cs) @ toValid False replacement (drop (w - 1) cs)))"
  by pat_completeness auto
termination
  by (relation "measure (\<lambda>(i, r, s). length s)") auto

definition ToValidUTF8 :: "string \<Rightarrow> string \<Rightarrow> string" where
  "ToValidUTF8 s replacement = toValid False replacement s"

text \<open>strings.ReplaceAll for a non-empty \<open>old\<close>: non-overlapping occurrences, left to
  right. (An empty \<open>old\<close> is not used by the generator.)\<close>

fun ReplaceAll :: "string \<Rightarrow> string \<Rightarrow> string \<Rightarrow> string" where
  "ReplaceAll [] old new = []"
| "ReplaceAll (c # cs) old new =
     (if old \<noteq> [] \<and> prefix old (c # cs)
      then new @ ReplaceAll (drop (length old - 1) cs) old new
      else c # ReplaceAll cs old new)"

definition Contains :: "string \<Rightarrow> string \<Rightarrow> bool" where
  "Contains s substr = sublist substr s"

definition HasPrefix :: "string \<Rightarrow> string \<Rightarrow> bool" where
  "HasPrefix s p = prefix p s"

text \<open>strings.EqualFold, for an operand made of ASCII letters that have no non-ASCII
  case variant (the generator compares with "title" and "name").\<close>

definition EqualFold :: "string \<Rightarrow> string \<Rightarrow> bool" where
  "EqualFold s t = (map asciiLower s = map asciiLower t)"

text \<open>strings.Split and strings.Join with a one-byte separator.\<close>

fun splitOn :: "char \<Rightarrow> string \<Rightarrow> string list" where
  "splitOn sep [] = [[]]"
| "splitOn sep (c # cs) =
     (if c = sep then [] # splitOn sep cs
      else (case splitOn sep cs of
              x # xs \<Rightarrow> (c # x) # xs
            | [] \<Rightarrow> [[c]]))"

fun joinWith :: "string \<Rightarrow> string list \<Rightarrow> string" where
  "joinWith sep [] = []"
| "joinWith sep [x] = x"
| "joinWith sep (x # y # ys) = x @ sep @ joinWith sep (y # ys)"

text \<open>
  fmt.Sprintf restricted to what the formats of this package contain: literal bytes,
  the verb \<open>%s\<close> applied to string operands, and \<open>%%\<close>. A verb without an operand
  prints \<open>%!s(MISSING)\<close>, operands left over are reported in an \<open>%!(EXTRA ...)\<close>
  suffix, as fmt does.
\<close>

definition sprintfExtra :: "string list \<Rightarrow> string" where
  "sprintfExtra args =
     (if args = [] then []
      else ''%!(EXTRA '' @ joinWith '', '' (map (\<lambda>a. ''string='' @ a) args) @ '')'')"

fun Sprintf :: "string \<Rightarrow> string list \<Rightarrow> string" where
  "Sprintf [] args = sprintfExtra args"
| "Sprintf [c] args = (if c = CHR ''%'' then ''%!(NOVERB)'' else [c]) @ sprintfExtra args"
| "Sprintf (c # d # rest) args =
     (if c \<noteq> CHR ''%'' then c # Sprintf (d # rest) args
      else if d = CHR ''%'' then CHR ''%'' # Sprintf rest args
      else if d = CHR ''s'' then
        (case args of
           [] \<Rightarrow> ''%!s(MISSING)'' @ Sprintf rest []
         | a # as \<Rightarrow> a @ Sprintf rest as)
      else
        (case args of
           [] \<Rightarrow> ''%!'' @ [d] @ ''(MISSING)'' @ Sprintf rest []
         | a # as \<Rightarrow> ''%!'' @ [d] @ ''(string='' @ a @ '')'' @ Sprintf rest as))"

section \<open>Paths (path/filepath on a slash-separated system)\<close>

text \<open>
  filepath.Clean by its specification: empty and \<open>.\<close> elements are dropped, \<open>..\<close>
  removes the element before it, a rooted path keeps its leading slash and loses
  \<open>..\<close> at the root, and an empty result is \<open>.\<close>.
\<close>

definition cleanStep :: "bool \<Rightarrow> string list \<Rightarrow> string \<Rightarrow> string list" where
  "cleanStep rooted st c =
     (if c = [] \<or> c = ''.'' then st
      else if c = ''..'' then
        (case st of
           [] \<Rightarrow> if rooted then [] else [''..'']
         | t # ts \<Rightarrow> if t = ''..'' then ''..'' # st else ts)
      else c # st)"

definition Clean :: "string \<Rightarrow> string" where
  "Clean p =
     (case p of
        [] \<Rightarrow> ''.''
      | c # _ \<Rightarrow>
          let rooted = (c = CHR ''/'');
              body = joinWith ''/'' (rev (foldl (cleanStep rooted) [] (splitOn CHR ''/'' p)))
          in if rooted then CHR ''/'' # body
             else if body = [] then ''.'' else body)"

definition Join :: "string list \<Rightarrow> string" where
  "Join elems =
     (let es = filter (\<lambda>e. e \<noteq> []) elems
      in if es = [] then [] else Clean (joinWith ''/'' es))"

definition Dir :: "string \<Rightarrow> string" where
  "Dir p = Clean (rev (dropWhile (\<lambda>c. c \<noteq> CHR ''/'') (rev p)))"

definition Ext :: "string \<Rightarrow> string" where
  "Ext p =
     (let base = rev (takeWhile (\<lambda>c. c \<noteq> CHR ''/'') (rev p))
      in if CHR ''.'' \<in> set base
         then CHR ''.'' # rev (takeWhile (\<lambda>c. c \<noteq> CHR ''.'') (rev base))
         else [])"

section \<open>Time (the fields of time.Time that the generator reads)\<close>

text \<open>
  An instant is a count of seconds since the Unix epoch with a nanosecond part; a
  time.Time also carries the offset of its location, in seconds east of UTC.
  Dates are those of the proleptic Gregorian calendar, as in Go's time package.
\<close>

record Time =
  unixSec :: int
  nsec :: nat
  offset :: int

definition After :: "Time \<Rightarrow> Time \<Rightarrow> bool" where
  "After t u = (unixSec t > unixSec u \<or> (unixSec t = unixSec u \<and> nsec t > nsec u))"

definition IsZero :: "Time \<Rightarrow> bool" where
  "IsZero t = (unixSec t = - 62135596800 \<and> nsec t = 0)"

definition UTC :: "Time \<Rightarrow> Time" where
  "UTC t = t\<lparr>offset := 0\<rparr>"

text \<open>The civil date (year, month, day) of a day number counted from 1970-01-01.\<close>

definition civil :: "int \<Rightarrow> int \<times> int \<times> int" where
  "civil days =
     (let z = days + 719468;
          era = z div 146097;
          doe = z mod 146097;
          yoe = (doe - doe div 1460 + doe div 36524 - doe div 146096) div 365;
          doy = doe - (365 * yoe + yoe div 4 - yoe div 100);
          mp = (5 * doy + 2) div 153;
          d = doy - (153 * mp + 2) div 5 + 1;
          m = (if mp < 10 then mp + 3 else mp - 9);
          y = yoe + era * 400 + (if m \<le> 2 then 1 else 0)
      in (y, m, d))"

fun digits :: "nat \<Rightarrow> string" where
  "digits n = (if n < 10 then [char_of (48 + n)]
               else digits (n div 10) @ [char_of (48 + n mod 10)])"

declare digits.simps [simp del]

text \<open>The decimal form of an integer, padded with zeros to a width (time.appendInt).\<close>

definition appendInt :: "int \<Rightarrow> nat \<Rightarrow> string" where
  "appendInt x width =
     (let ds = digits (nat \<bar>x\<bar>)
      in (if x < 0 then ''-'' else []) @ replicate (width - length ds) CHR ''0'' @ ds)"

definition localSec :: "Time \<Rightarrow> int" where
  "localSec t = unixSec t + offset t"

text \<open>Format with the layout "2006-01-02".\<close>

definition formatDate :: "Time \<Rightarrow> string" where
  "formatDate t =
     (case civil (localSec t div 86400) of
        (y, m, d) \<Rightarrow> appendInt y 4 @ ''-'' @ appendInt m 2 @ ''-'' @ appendInt d 2)"

text \<open>Format with the layout "15:04:05".\<close>

definition formatClock :: "Time \<Rightarrow> string" where
  "formatClock t =
     (let s = localSec t mod 86400
      in appendInt (s div 3600) 2 @ '':'' @ appendInt ((s mod 3600) div 60) 2 @ '':''
         @ appendInt (s mod 60) 2)"

text \<open>The fractional part of the layout ".999999999": nine digits without the trailing
  zeros, nothing at all when the nanoseconds are zero.\<close>

definition formatFrac :: "nat \<Rightarrow> string" where
  "formatFrac n =
     (let ds = rev (dropWhile (\<lambda>c. c = CHR ''0'') (rev (appendInt (int n) 9)))
      in if ds = [] then [] else ''.'' @ ds)"

text \<open>The zone of the layout "Z07:00".\<close>

definition formatZone :: "int \<Rightarrow> string" where
  "formatZone off =
     (if off = 0 then ''Z''
      else (if off < 0 then ''-'' else ''+'') @ appendInt (\<bar>off\<bar> div 3600) 2 @ '':''
           @ appendInt ((\<bar>off\<bar> mod 3600) div 60) 2)"

text \<open>Format with time.RFC3339Nano, "2006-01-02T15:04:05.999999999Z07:00".\<close>

definition formatRFC3339Nano :: "Time \<Rightarrow> string" where
  "formatRFC3339Nano t =
     formatDate t @ ''T'' @ formatClock t @ formatFrac (nsec t) @ formatZone (offset t)"

section \<open>Errors, the file system and writers\<close>

text \<open>
  A Go \<open>error\<close> value is a value of \<open>error\<close>: the errors of the operating system
  that the code distinguishes, the errors
  that the collaborators report (HTTP, the Notion client, YAML, JSON, templates), and
  the wrapping that \<open>fmt.Errorf\<close> adds. A run-time panic (nil pointer, failed type
  assertion, index out of range) ends the program; it is the value \<open>Panic\<close>.
\<close>

datatype error =
    ENOENT
  | ENOTDIR
  | EISDIR
  | ENOTEMPTY
  | External string
  | Wrapped string error
  | Panic string

text \<open>
  The file system holds regular files with their contents and a set of directories,
  both named by cleaned paths; the working directory \<open>.\<close> and the root are always
  there. A path is resolved lexically (by \<open>Clean\<close>). An operation fails only for the
  reasons stated with it: permissions, quotas and devices are not part of the state.
\<close>

record filesys =
  fileList :: "(string \<times> string) list"
  dirs :: "string set"

text \<open>The regular files are kept as the list of their paths and contents, each path
  once; \<open>files\<close> is the content found at a path.\<close>

definition files :: "filesys \<Rightarrow> string \<rightharpoonup> string" where
  "files fs = map_of (fileList fs)"

lemma files_dirs_update [simp]: "files (fs\<lparr>dirs := d\<rparr>) = files fs"
  by (simp add: files_def)

definition isFile :: "filesys \<Rightarrow> string \<Rightarrow> bool" where
  "isFile fs p = (files fs p \<noteq> None)"

definition isDir :: "filesys \<Rightarrow> string \<Rightarrow> bool" where
  "isDir fs p = (p = ''.'' \<or> p = ''/'' \<or> p \<in> dirs fs)"

text \<open>The path itself and the directories above it, the outermost first.\<close>

definition pathPrefixes :: "string \<Rightarrow> string list" where
  "pathPrefixes p =
     (let q = Clean p;
          root = (if take 1 q = ''/'' then ''/'' else []);
          comps = filter (\<lambda>c. c \<noteq> []) (splitOn CHR ''/'' q)
      in map (\<lambda>n. root @ joinWith ''/'' (take n comps)) [1..<Suc (length comps)])"

text \<open>os.MkdirAll: fails on the empty path and when a file stands where a directory
  is needed.\<close>

definition MkdirAll :: "string \<Rightarrow> filesys \<Rightarrow> error option \<times> filesys" where
  "MkdirAll p fs =
     (if p = [] then (Some ENOENT, fs)
      else if list_ex (isFile fs) (pathPrefixes p) then (Some ENOTDIR, fs)
      else (None, fs\<lparr>dirs := dirs fs \<union> set (pathPrefixes p)\<rparr>))"

definition putFile :: "string \<Rightarrow> string \<Rightarrow> filesys \<Rightarrow> filesys" where
  "putFile p content fs =
     fs\<lparr>fileList := AList.update (Clean p) content (fileList fs)\<rparr>"

definition dropFile :: "string \<Rightarrow> filesys \<Rightarrow> filesys" where
  "dropFile q fs = fs\<lparr>fileList := AList.delete q (fileList fs)\<rparr>"

lemma files_putFile [simp]: "files (putFile p content fs) = (files fs)(Clean p \<mapsto> content)"
  by (simp add: files_def putFile_def update_conv')

lemma dirs_putFile [simp]: "dirs (putFile p content fs) = dirs fs"
  by (simp add: putFile_def)

lemma files_dropFile [simp]: "files (dropFile q fs) = (files fs)(q := None)"
  by (simp add: files_def dropFile_def delete_conv')

lemma dirs_dropFile [simp]: "dirs (dropFile q fs) = dirs fs"
  by (simp add: dropFile_def)

text \<open>Why a file cannot be opened for writing at a path, if it cannot.\<close>

definition createError :: "string \<Rightarrow> filesys \<Rightarrow> error option" where
  "createError p fs =
     (let q = Clean p
      in if p = [] then Some ENOENT
         else if isDir fs q then Some EISDIR
         else if isFile fs (Dir q) then Some ENOTDIR
         else if \<not> isDir fs (Dir q) then Some ENOENT
         else None)"

text \<open>os.Create: the file is created or truncated.\<close>

definition Create :: "string \<Rightarrow> filesys \<Rightarrow> error option \<times> filesys" where
  "Create p fs =
     (case createError p fs of
        Some e \<Rightarrow> (Some e, fs)
      | None \<Rightarrow> (None, putFile p [] fs))"

definition WriteFile :: "string \<Rightarrow> string \<Rightarrow> filesys \<Rightarrow> error option \<times> filesys" where
  "WriteFile p content fs =
     (case createError p fs of
        Some e \<Rightarrow> (Some e, fs)
      | None \<Rightarrow> (None, putFile p content fs))"

definition ReadFile :: "string \<Rightarrow> filesys \<Rightarrow> error + string" where
  "ReadFile p fs =
     (if p = [] then Inl ENOENT
      else case files fs (Clean p) of
             Some content \<Rightarrow> Inr content
           | None \<Rightarrow> Inl (if isDir fs (Clean p) then EISDIR else ENOENT))"

definition Stat :: "string \<Rightarrow> filesys \<Rightarrow> error option" where
  "Stat p fs =
     (if p \<noteq> [] \<and> (isFile fs (Clean p) \<or> isDir fs (Clean p)) then None else Some ENOENT)"

definition dirEmpty :: "filesys \<Rightarrow> string \<Rightarrow> bool" where
  "dirEmpty fs d =
     (list_all (\<lambda>q. q = d \<or> Dir q \<noteq> d) (map fst (fileList fs))
      \<and> (\<forall>q \<in> dirs fs. q = d \<or> Dir q \<noteq> d))"

text \<open>os.Remove: removes a file or an empty directory.\<close>

definition Remove :: "string \<Rightarrow> filesys \<Rightarrow> error option \<times> filesys" where
  "Remove p fs =
     (let q = Clean p
      in if p = [] then (Some ENOENT, fs)
         else if isFile fs q then (None, dropFile q fs)
         else if q \<in> dirs fs then
           (if dirEmpty fs q then (None, fs\<lparr>dirs := dirs fs - {q}\<rparr>) else (Some ENOTEMPTY, fs))
         else (Some ENOENT, fs))"

definition IsNotExist :: "error \<Rightarrow> bool" where
  "IsNotExist e = (e = ENOENT)"

text \<open>
  An io.Writer: the bytes it has taken, and the error it answers every Write with, if
  it is broken. io.Copy from a buffer calls Write only when the buffer holds bytes.
\<close>

datatype Writer = Writer (written: string) (broken: "error option")

definition Write :: "Writer \<Rightarrow> string \<Rightarrow> error option \<times> Writer" where
  "Write w bs =
     (case broken w of
        Some e \<Rightarrow> (Some e, w)
      | None \<Rightarrow> (None, Writer (written w @ bs) None))"

definition ioCopy :: "Writer \<Rightarrow> string \<Rightarrow> error option \<times> Writer" where
  "ioCopy w bs = (if bs = [] then (None, w) else Write w bs)"

text \<open>An HTTP response body: the bytes that can be read, and the error that ends the
  reading, if any.\<close>

datatype Body = Body (bodyBytes: string) (readError: "error option")

section \<open>Rich text (pkg/tomarkdown: ConvertRichText, ConvertRich, emphFormat)\<close>

text \<open>
  Go strings are byte sequences; a \<^typ>\<open>string\<close> is a list of bytes.

  notion.RichText is a struct with a type tag and one populated pointer per tag. It is
  modelled as the tagged union it encodes: a text span always carries its Text payload
  (a span tagged "text" with a nil Text pointer makes ConvertRich panic and is not a value
  of this datatype). The Annotations pointer may be nil, which emphFormat tests.
\<close>

record Annotations =
  Bold :: bool
  Italic :: bool
  Strikethrough :: bool
  Underline :: bool
  Code :: bool
  Color :: string

datatype Link = Link (URL: string)

datatype Text = Text (Content: string) (TextLink: "Link option")

datatype RichText =
    RichTextTypeText "Annotations option" Text
  | RichTextTypeEquation "Annotations option" string
  | RichTextTypeMention "Annotations option" string

text \<open>emphFormat: the format string that wraps a span's content.\<close>

definition emphFormat :: "Annotations option \<Rightarrow> string" where
  "emphFormat a =
     (case a of
        None \<Rightarrow> ''%s''
      | Some a \<Rightarrow>
          if Code a then ''`%s`''
          else
            let s = (if Bold a \<and> Italic a then ''***%s***''
                     else if Bold a then ''**%s**''
                     else if Italic a then ''*%s*''
                     else ''%s'')
            in if Underline a then ''__'' @ s @ ''__''
               else if Strikethrough a then ''~~'' @ s @ ''~~''
               else s)"

fun ConvertRich :: "RichText \<Rightarrow> string" where
  "ConvertRich (RichTextTypeText a t) =
     (case TextLink t of
        Some l \<Rightarrow> Sprintf (emphFormat a) [Sprintf ''[%s](%s)'' [Content t, URL l]]
      | None \<Rightarrow> Sprintf (emphFormat a) [Content t])"
| "ConvertRich (RichTextTypeEquation a e) = ''''"
| "ConvertRich (RichTextTypeMention a m) = ''''"

definition ConvertRichText :: "RichText list \<Rightarrow> string" where
  "ConvertRichText t = concat (map ConvertRich t)"

section \<open>Notion data (github.com/dstotijn/go-notion, as the generator reads it)\<close>

text \<open>
  A file reference (notion.FileBlock, notion.Cover): the type tag and the URL of each of
  the two variants.
\<close>

datatype FileBlock = FileBlock (FileType: string) (File_URL: string) (External_URL: string)

definition FileTypeExternal :: string where "FileTypeExternal = ''external''"
definition FileTypeFile :: string where "FileTypeFile = ''file''"

text \<open>
  A block: its type, whether it declares children, the payloads that the generator
  itself reads (the image, the bookmark URL), the rich text of its payload for the
  templates, and the child blocks stored in the payload of its type.
\<close>

datatype Block =
  Block (BlockType: string) (HasChildren: bool) (Image: "FileBlock option")
        (Bookmark: "string option") (RichTexts: "RichText list") (Children: "Block list")

definition BlockTypeParagraph :: string where "BlockTypeParagraph = ''paragraph''"
definition BlockTypeBulletedListItem :: string where "BlockTypeBulletedListItem = ''bulleted_list_item''"
definition BlockTypeNumberedListItem :: string where "BlockTypeNumberedListItem = ''numbered_list_item''"
definition BlockTypeToDo :: string where "BlockTypeToDo = ''to_do''"
definition BlockTypeToggle :: string where "BlockTypeToggle = ''toggle''"
definition BlockTypeQuote :: string where "BlockTypeQuote = ''quote''"
definition BlockTypeCallout :: string where "BlockTypeCallout = ''callout''"
definition BlockTypeCode :: string where "BlockTypeCode = ''code''"
definition BlockTypeColumn :: string where "BlockTypeColumn = ''column''"
definition BlockTypeColumnList :: string where "BlockTypeColumnList = ''column_list''"
definition BlockTypeTable :: string where "BlockTypeTable = ''table''"
definition BlockTypeSyncedBlock :: string where "BlockTypeSyncedBlock = ''synced_block''"
definition BlockTypeTemplate :: string where "BlockTypeTemplate = ''template''"
definition BlockTypeImage :: string where "BlockTypeImage = ''image''"
definition BlockTypeBookmark :: string where "BlockTypeBookmark = ''bookmark''"

primrec withImage :: "Block \<Rightarrow> FileBlock \<Rightarrow> Block" where
  "withImage (Block t h i bm rt cs) img = Block t h (Some img) bm rt cs"

fun blockSize :: "Block \<Rightarrow> nat" where
  "blockSize (Block t h i bm rt cs) = Suc (sum_list (map blockSize cs))"

lemma blockSize_pos: "0 < blockSize b"
  by (cases b) simp

lemma blockSize_withImage: "blockSize (withImage b img) = blockSize b"
  by (cases b) simp

lemma blockSize_Children: "Suc (2 * sum_list (map blockSize (Children b))) < 2 * blockSize b"
  by (cases b) simp

lemma blockSize_gt: "Suc 0 < 2 * blockSize b"
  by (cases b) simp

text \<open>A float64 is only passed on to the front matter; it is kept as its bit pattern.\<close>

datatype float64 = Float64 nat

text \<open>The value that DatabasePageProperty.Value() returns, by its dynamic type.\<close>

datatype PropertyValue =
    SelectValue "string option"
  | MultiSelectValue "string list"
  | RichTextValue "RichText list"
  | TimeValue "Time option"
  | DateValue "(Time \<times> Time option) option"
  | UserValue "string option"
  | StringValue "string option"
  | NumberValue "float64 option"
  | OtherValue

record DatabasePageProperty =
  PropType :: string
  Title :: "RichText list"
  PropValue :: PropertyValue

definition DBPropTypeTitle :: string where "DBPropTypeTitle = ''title''"

text \<open>
  Page.Properties is an interface value: the properties of a database page, or those of
  a page of another parent. notion.DatabasePageProperties is a Go map; the list is the
  order in which one \<open>range\<close> loop visits its entries.
\<close>

datatype PageProperties =
    DatabasePageProperties "(string \<times> DatabasePageProperty) list"
  | OtherPageProperties

record Page =
  ID :: string
  CreatedTime :: Time
  LastEditedTime :: Time
  Properties :: PageProperties
  Cover :: "FileBlock option"

section \<open>Configuration (generator/config.go)\<close>

record Notion =
  DatabaseID :: string
  FilterProp :: string
  FilterValue :: "string list"
  PublishedValue :: string

record Markdown =
  ShortcodeSyntax :: string
  PageNamePrefix :: string
  PostSavePath :: string
  ImageSavePath :: string
  ImagePublicLink :: string
  GroupByMonth :: bool
  Template :: string

record Config =
  Notion :: Notion
  Markdown :: Markdown
  Parallelize :: bool
  Parallelism :: int
  CacheFile :: string
  Incremental :: bool

section \<open>The sync cache (generator: cacheEntry, runCache)\<close>

record cacheEntry =
  LastEdited :: string
  OutputPath :: string

record runCache =
  Pages :: "string \<rightharpoonup> cacheEntry"

definition defaultCache :: runCache where
  "defaultCache = \<lparr>Pages = Map.empty\<rparr>"

definition cacheTimestamp :: "Time \<Rightarrow> string" where
  "cacheTimestamp t = formatRFC3339Nano (UTC t)"

section \<open>The renderer's state and its collaborators\<close>

datatype extraval = EBool bool | EInt int | EString string

datatype fmvalue = FmString string | FmStrings "string list" | FmNumber float64

record MdBlock =
  mdBlock :: Block
  Depth :: int
  Extra :: "string \<rightharpoonup> extraval"

text \<open>tm.FrontMatter is a Go map; the list is the order in which \<open>range\<close> visits it.\<close>

record ToMarkdown =
  FrontMatter :: "(string \<times> fmvalue) list"
  ContentBuffer :: string
  ImgSavePath :: string
  ImgVisitPath :: string
  ContentTemplate :: string
  extra :: "string \<rightharpoonup> extraval"

record OpenGraph =
  ogTitle :: string
  ogDescription :: string
  ogImage :: "string option list"

record URLParts =
  Hostname :: string
  Path :: string

text \<open>
  What the run gets from outside the repository's sources in \<open>src\<close>: the answers of the
  Notion client (generator/notion.go is not among them), of HTTP and of OpenGraph, the
  embedded block templates (a template maps the block it is executed on to the text it
  writes and the error it ends with, if any; no template for a name is a parse error),
  the library codecs, and the Unicode case table that strings.ToLower reads
  (\<open>lowerCaseTable\<close>, see \<open>unicode_ToLower\<close>).
\<close>

record env =
  lowerCaseTable :: "rune \<Rightarrow> rune"
  queryDatabase :: "Notion \<Rightarrow> error + Page list"
  queryBlockChildren :: "string \<Rightarrow> error + Block list"
  changeStatus :: "Page \<Rightarrow> Notion \<Rightarrow> bool"
  httpGet :: "string \<Rightarrow> error + Body"
  urlParse :: "string \<Rightarrow> error + URLParts"
  PathEscape :: "string \<Rightarrow> string"
  opengraphFetch :: "string \<Rightarrow> error + OpenGraph"
  templates :: "string \<Rightarrow> (MdBlock \<Rightarrow> string \<times> error option) option"
  parseTemplate :: "string \<Rightarrow> error + (ToMarkdown \<Rightarrow> string \<times> error option)"
  yamlMarshal :: "(string \<rightharpoonup> fmvalue) \<Rightarrow> error + string"
  jsonMarshalIndent :: "runCache \<Rightarrow> error + string"
  jsonUnmarshal :: "string \<Rightarrow> error + runCache"

section \<open>The renderer (pkg/tomarkdown)\<close>

definition nl :: string where
  "nl = [CHR 0x0A]"

definition New :: ToMarkdown where
  "New = \<lparr>FrontMatter = [], ContentBuffer = [], ImgSavePath = [], ImgVisitPath = [],
          ContentTemplate = [], extra = Map.empty\<rparr>"

definition extendedSyntaxBlocks :: "string list" where
  "extendedSyntaxBlocks = [BlockTypeBookmark, BlockTypeCallout]"

definition blockTypeInExtendedSyntaxBlocks :: "string \<Rightarrow> bool" where
  "blockTypeInExtendedSyntaxBlocks bType = (bType \<in> set extendedSyntaxBlocks)"

definition EnableExtendedSyntax :: "string \<Rightarrow> ToMarkdown \<Rightarrow> ToMarkdown" where
  "EnableExtendedSyntax target tm =
     tm\<lparr>extra := (extra tm)(''ExtendedSyntaxEnabled'' \<mapsto> EBool True,
                             ''ExtendedSyntaxTarget'' \<mapsto> EString target)\<rparr>"

definition ExtendedSyntaxEnabled :: "ToMarkdown \<Rightarrow> bool" where
  "ExtendedSyntaxEnabled tm =
     (case extra tm ''ExtendedSyntaxEnabled'' of
        Some (EBool v) \<Rightarrow> v
      | _ \<Rightarrow> False)"

definition shouldSkipRender :: "ToMarkdown \<Rightarrow> string \<Rightarrow> bool" where
  "shouldSkipRender tm bType =
     (\<not> ExtendedSyntaxEnabled tm \<and> blockTypeInExtendedSyntaxBlocks bType)"

text \<open>GenFrontMatter: the keys are lower-cased into a fresh map, which is marshalled
  and written between two lines of dashes.\<close>

definition lowerKeys :: "env \<Rightarrow> (string \<times> fmvalue) list \<Rightarrow> (string \<rightharpoonup> fmvalue)" where
  "lowerKeys ev fm =
     foldl (\<lambda>nfm (key, v). nfm(ToLower (lowerCaseTable ev) key \<mapsto> v)) Map.empty fm"

definition GenFrontMatter :: "env \<Rightarrow> ToMarkdown \<Rightarrow> Writer \<Rightarrow> error option \<times> Writer" where
  "GenFrontMatter ev tm writer =
     (if length (FrontMatter tm) = 0 then (None, writer)
      else case yamlMarshal ev (lowerKeys ev (FrontMatter tm)) of
             Inl err \<Rightarrow> (None, writer)
           | Inr frontMatters \<Rightarrow>
               ioCopy writer (''---'' @ nl @ frontMatters @ ''---'' @ nl @ nl))"

text \<open>saveTo: the body is stored under a name made of the host, the whole URL path and
  the last path element, and the path the site serves it under is returned.\<close>

definition saveTo ::
  "env \<Rightarrow> ToMarkdown \<Rightarrow> Body \<Rightarrow> string \<Rightarrow> string \<Rightarrow> filesys \<Rightarrow> (error + string) \<times> filesys"
where
  "saveTo ev tm reader rawURL distDir fs =
     (case urlParse ev rawURL of
        Inl err \<Rightarrow> (Inl (Wrapped ''malformed url'' err), fs)
      | Inr u \<Rightarrow>
          (let splitPaths = splitOn CHR ''/'' (Path u);
               imageFilename = last splitPaths
           in if HasPrefix imageFilename ''Untitled.'' \<and> length splitPaths < 2
              then (Inl (Panic ''index out of range''), fs)
              else
                (let imageFilename =
                       (if HasPrefix imageFilename ''Untitled.''
                        then splitPaths ! (length splitPaths - 2) @ Ext (Path u)
                        else imageFilename)
                 in (case MkdirAll distDir fs of
                       (Some err, fs1) \<Rightarrow> (Inl (Wrapped distDir err), fs1)
                     | (None, fs1) \<Rightarrow>
                         (let urlPath = joinWith ''_'' splitPaths;
                              filename = Hostname u @ ''_'' @ urlPath @ ''_'' @ imageFilename
                          in (case Create (Join [distDir, filename]) fs1 of
                                (Some err, fs2) \<Rightarrow>
                                  (Inl (Wrapped ''could not create image file'' err), fs2)
                              | (None, fs2) \<Rightarrow>
                                  (let fs3 = putFile (Join [distDir, filename])
                                               (bodyBytes reader) fs2
                                   in (case readError reader of
                                         Some err \<Rightarrow> (Inl err, fs3)
                                       | None \<Rightarrow>
                                           (Inr (Join [ImgVisitPath tm, filename]), fs3)))))))))"

definition download ::
  "env \<Rightarrow> ToMarkdown \<Rightarrow> string \<Rightarrow> filesys \<Rightarrow> (error + string) \<times> filesys"
where
  "download ev tm imgURL fs =
     (case httpGet ev imgURL of
        Inl err \<Rightarrow> (Inl err, fs)
      | Inr body \<Rightarrow> saveTo ev tm body imgURL (ImgSavePath tm) fs)"

text \<open>downloadImage: the image is fetched and its URL replaced by the local one. The
  result is the error, the image as it is afterwards, and the file system.\<close>

definition downloadImage ::
  "env \<Rightarrow> ToMarkdown \<Rightarrow> FileBlock \<Rightarrow> filesys \<Rightarrow> error option \<times> FileBlock \<times> filesys"
where
  "downloadImage ev tm img fs =
     (if FileType img = FileTypeExternal then
        (case download ev tm (External_URL img) fs of
           (Inl err, fs1) \<Rightarrow> (Some err, img, fs1)
         | (Inr newURL, fs1) \<Rightarrow>
             (None, FileBlock (FileType img) (File_URL img) newURL, fs1))
      else if FileType img = FileTypeFile then
        (case download ev tm (File_URL img) fs of
           (Inl err, fs1) \<Rightarrow> (Some err, img, fs1)
         | (Inr newURL, fs1) \<Rightarrow>
             (None, FileBlock (FileType img) newURL (External_URL img), fs1))
      else (None, img, fs))"

text \<open>injectBookmarkInfo: the first image with a URL, the title and the description
  of the bookmarked page go into the Extra map.\<close>

definition injectBookmarkInfo ::
  "env \<Rightarrow> string \<Rightarrow> (string \<rightharpoonup> extraval) \<Rightarrow> error option \<times> (string \<rightharpoonup> extraval)"
where
  "injectBookmarkInfo ev url ex =
     (case opengraphFetch ev url of
        Inl err \<Rightarrow> (Some err, ex)
      | Inr og \<Rightarrow>
          let ex1 = (case filter (\<lambda>img. img \<noteq> None \<and> img \<noteq> Some []) (ogImage og) of
                       Some imgURL # _ \<Rightarrow> ex(''Image'' \<mapsto> EString imgURL)
                     | _ \<Rightarrow> ex)
          in (None, ex1(''Title'' \<mapsto> EString (ogTitle og),
                        ''Description'' \<mapsto> EString (ogDescription og))))"

definition childTypes :: "string list" where
  "childTypes =
     [BlockTypeQuote, BlockTypeToggle, BlockTypeParagraph, BlockTypeCallout,
      BlockTypeBulletedListItem, BlockTypeNumberedListItem, BlockTypeToDo, BlockTypeCode,
      BlockTypeColumn, BlockTypeColumnList, BlockTypeTable, BlockTypeSyncedBlock,
      BlockTypeTemplate]"

definition getChildrenBlocks :: "MdBlock \<Rightarrow> Block list" where
  "getChildrenBlocks block =
     (if BlockType (mdBlock block) \<in> set childTypes then Children (mdBlock block)
      else [])"

text \<open>The code-line formatter handed to the templates as \<open>indentCode\<close>.\<close>

definition indentCode :: "RichText list \<Rightarrow> nat \<Rightarrow> string" where
  "indentCode richText depth =
     (let content = ConvertRichText richText
      in if depth = 0 then content
         else joinWith nl
                (map (\<lambda>line. concat (replicate depth ''  '') @ line) (splitOn CHR 0x0A content)))"

text \<open>
  GenContentBlocks and GenBlock. The state is the renderer and the file system; it is
  returned with the error, since what was written before a failure stays written.
  \<open>GenContentBlocks_loop\<close> is the \<open>for\<close> loop of GenContentBlocks with its two local
  variables \<open>sameBlockIdx\<close> and \<open>lastBlockType\<close>. The Extra map of an MdBlock is the
  renderer's own \<open>extra\<close> map, so what is stored in one is stored in the other.
\<close>

function
  GenContentBlocks_loop ::
    "env \<Rightarrow> Block list \<Rightarrow> int \<Rightarrow> int \<Rightarrow> string \<Rightarrow> ToMarkdown \<times> filesys
      \<Rightarrow> error option \<times> ToMarkdown \<times> filesys"
and
  GenBlock ::
    "env \<Rightarrow> string \<Rightarrow> MdBlock \<Rightarrow> ToMarkdown \<times> filesys \<Rightarrow> error option \<times> ToMarkdown \<times> filesys"
where
  "GenContentBlocks_loop ev [] depth sameBlockIdx lastBlockType st = (None, st)"
| "GenContentBlocks_loop ev (block # blocks) depth sameBlockIdx lastBlockType st =
     (if shouldSkipRender (fst st) (BlockType block)
      then GenContentBlocks_loop ev blocks depth sameBlockIdx lastBlockType st
      else
        let idx = (if BlockType block \<noteq> lastBlockType then 0 else sameBlockIdx + 1);
            tm = (fst st)\<lparr>extra := (extra (fst st))(''SameBlockIdx'' \<mapsto> EInt idx)\<rparr>;
            pre =
              (if BlockType block = BlockTypeImage then
                 (case Image block of
                    None \<Rightarrow> (Some (Panic ''nil pointer dereference''), block, tm, snd st)
                  | Some img \<Rightarrow>
                      (case downloadImage ev tm img (snd st) of
                         (err, img1, fs1) \<Rightarrow> (err, withImage block img1, tm, fs1)))
               else if BlockType block = BlockTypeBookmark then
                 (case Bookmark block of
                    None \<Rightarrow> (Some (Panic ''nil pointer dereference''), block, tm, snd st)
                  | Some url \<Rightarrow>
                      (case injectBookmarkInfo ev url (extra tm) of
                         (err, ex) \<Rightarrow> (err, block, tm\<lparr>extra := ex\<rparr>, snd st)))
               else (None, block, tm, snd st))
        in case pre of
             (Some err, block1, tm1, fs1) \<Rightarrow> (Some err, tm1, fs1)
           | (None, block1, tm1, fs1) \<Rightarrow>
               (case GenBlock ev (BlockType block)
                       \<lparr>mdBlock = block1, Depth = depth, Extra = extra tm1\<rparr>
                       (tm1, fs1) of
                  (Some err, st1) \<Rightarrow> (Some err, st1)
                | (None, st1) \<Rightarrow>
                    GenContentBlocks_loop ev blocks depth idx (BlockType block) st1))"
| "GenBlock ev bType block st =
     (case templates ev (bType @ ''.gohtml'') of
        None \<Rightarrow> (None, st)
      | Some tpl \<Rightarrow>
          (case tpl block of
             (out, Some err) \<Rightarrow>
               (Some err, (fst st)\<lparr>ContentBuffer := ContentBuffer (fst st) @ out\<rparr>, snd st)
           | (out, None) \<Rightarrow>
               let st1 = ((fst st)\<lparr>ContentBuffer := ContentBuffer (fst st) @ out\<rparr>, snd st)
               in if HasChildren (mdBlock block)
                  then GenContentBlocks_loop ev (getChildrenBlocks block) (Depth block + 1) 0 [] st1
                  else (None, st1)))"
  by pat_completeness auto
termination
  by (relation "measure (\<lambda>x. case x of
        Inl (ev, blocks, depth, idx, lt, st) \<Rightarrow> 2 * sum_list (map blockSize blocks) + 1
      | Inr (ev, bType, block, st) \<Rightarrow> 2 * blockSize (mdBlock block))")
     (auto simp: getChildrenBlocks_def blockSize_pos blockSize_withImage blockSize_Children
        blockSize_gt split: if_splits option.splits prod.splits)

declare GenContentBlocks_loop.simps [simp del] GenBlock.simps [simp del]

definition GenContentBlocks ::
  "env \<Rightarrow> Block list \<Rightarrow> int \<Rightarrow> ToMarkdown \<times> filesys \<Rightarrow> error option \<times> ToMarkdown \<times> filesys"
where
  "GenContentBlocks ev blocks depth st = GenContentBlocks_loop ev blocks depth 0 [] st"

text \<open>
  One pass through the body of the loop of GenContentBlocks for a block that is not
  skipped, with the value that \<open>sameBlockIdx\<close> has when the block is rendered: the index
  is stored for the template, an image is downloaded, a bookmark is looked up, and the
  block is rendered.
\<close>

definition renderSibling ::
  "env \<Rightarrow> int \<Rightarrow> Block \<Rightarrow> int \<Rightarrow> ToMarkdown \<times> filesys \<Rightarrow> error option \<times> ToMarkdown \<times> filesys"
where
  "renderSibling ev depth block idx st =
     (let tm = (fst st)\<lparr>extra := (extra (fst st))(''SameBlockIdx'' \<mapsto> EInt idx)\<rparr>;
          pre =
            (if BlockType block = BlockTypeImage then
               (case Image block of
                  None \<Rightarrow> (Some (Panic ''nil pointer dereference''), block, tm, snd st)
                | Some img \<Rightarrow>
                    (case downloadImage ev tm img (snd st) of
                       (err, img1, fs1) \<Rightarrow> (err, withImage block img1, tm, fs1)))
             else if BlockType block = BlockTypeBookmark then
               (case Bookmark block of
                  None \<Rightarrow> (Some (Panic ''nil pointer dereference''), block, tm, snd st)
                | Some url \<Rightarrow>
                    (case injectBookmarkInfo ev url (extra tm) of
                       (err, ex) \<Rightarrow> (err, block, tm\<lparr>extra := ex\<rparr>, snd st)))
             else (None, block, tm, snd st))
      in case pre of
           (Some err, block1, tm1, fs1) \<Rightarrow> (Some err, tm1, fs1)
         | (None, block1, tm1, fs1) \<Rightarrow>
             GenBlock ev (BlockType block)
               \<lparr>mdBlock = block1, Depth = depth, Extra = extra tm1\<rparr> (tm1, fs1))"

text \<open>injectFrontMatter: a property becomes a front-matter value by the dynamic type
  of its value; a value that is nil or of another type leaves no key.\<close>

definition formatFrontMatterTime :: "Time \<Rightarrow> string" where
  "formatFrontMatterTime t = formatDate t @ ''T'' @ formatClock t @ ''+07:00''"

definition injectFrontMatter ::
  "string \<Rightarrow> DatabasePageProperty \<Rightarrow> ToMarkdown \<Rightarrow> error option \<times> ToMarkdown"
where
  "injectFrontMatter key property tm =
     (let fmv =
            (case PropValue property of
               SelectValue prop \<Rightarrow> Inr (map_option FmString prop)
             | MultiSelectValue prop \<Rightarrow> Inr (Some (FmStrings prop))
             | RichTextValue prop \<Rightarrow> Inr (Some (FmString (ConvertRichText prop)))
             | TimeValue prop \<Rightarrow> Inr (map_option (\<lambda>t. FmString (formatFrontMatterTime t)) prop)
             | DateValue None \<Rightarrow> Inr None
             | DateValue (Some (start, end)) \<Rightarrow>
                 (if \<not> IsZero start then Inr (Some (FmString (formatFrontMatterTime start)))
                  else (case end of
                          None \<Rightarrow> Inl (Panic ''nil pointer dereference'')
                        | Some e \<Rightarrow>
                            if \<not> IsZero e then Inr (Some (FmString (formatFrontMatterTime e)))
                            else Inr None))
             | UserValue prop \<Rightarrow> Inr (map_option FmString prop)
             | StringValue prop \<Rightarrow> Inr (map_option FmString prop)
             | NumberValue prop \<Rightarrow> Inr (map_option FmNumber prop)
             | OtherValue \<Rightarrow> Inr None)
      in case fmv of
           Inl err \<Rightarrow> (Some err, tm)
         | Inr None \<Rightarrow> (None, tm)
         | Inr (Some v) \<Rightarrow> (None, tm\<lparr>FrontMatter := AList.update key v (FrontMatter tm)\<rparr>))"

text \<open>injectFrontMatterCover: the cover is downloaded like an image; when the download
  fails the function returns without a cover and without an error.\<close>

definition injectFrontMatterCover ::
  "env \<Rightarrow> FileBlock option \<Rightarrow> ToMarkdown \<Rightarrow> filesys \<Rightarrow> ToMarkdown \<times> filesys"
where
  "injectFrontMatterCover ev cover tm fs =
     (case cover of
        None \<Rightarrow> (tm, fs)
      | Some c \<Rightarrow>
          (case downloadImage ev tm (FileBlock (FileType c) (File_URL c) (External_URL c)) fs of
             (Some err, img, fs1) \<Rightarrow> (tm, fs1)
           | (None, img, fs1) \<Rightarrow>
               if FileType img = FileTypeExternal
               then (tm\<lparr>FrontMatter := AList.update ''cover'' (FmString (External_URL img))
                                          (FrontMatter tm)\<rparr>, fs1)
               else if FileType img = FileTypeFile
               then (tm\<lparr>FrontMatter := AList.update ''cover'' (FmString (File_URL img))
                                          (FrontMatter tm)\<rparr>, fs1)
               else (tm, fs1)))"

fun injectAll ::
  "(string \<times> DatabasePageProperty) list \<Rightarrow> ToMarkdown \<Rightarrow> error option \<times> ToMarkdown"
where
  "injectAll [] tm = (None, tm)"
| "injectAll ((fmKey, property) # rest) tm =
     (case injectFrontMatter fmKey property tm of
        (Some err, tm1) \<Rightarrow> (Some err, tm1)
      | (None, tm1) \<Rightarrow> injectAll rest tm1)"

text \<open>WithFrontMatter: the cover, then every property. The type assertion on the
  properties panics for a page that is not a database page.\<close>

definition WithFrontMatter ::
  "env \<Rightarrow> Page \<Rightarrow> ToMarkdown \<Rightarrow> filesys \<Rightarrow> error option \<times> ToMarkdown \<times> filesys"
where
  "WithFrontMatter ev page tm fs =
     (case injectFrontMatterCover ev (Cover page) tm fs of
        (tm1, fs1) \<Rightarrow>
          (case Properties page of
             DatabasePageProperties pageProps \<Rightarrow>
               (case injectAll pageProps tm1 of (err, tm2) \<Rightarrow> (err, tm2, fs1))
           | OtherPageProperties \<Rightarrow> (Some (Panic ''interface conversion''), tm1, fs1)))"

text \<open>GenerateTo: the front matter, the blocks, and then either the content template
  executed on the renderer or the content buffer copied to the writer.\<close>

definition GenerateTo ::
  "env \<Rightarrow> ToMarkdown \<Rightarrow> Block list \<Rightarrow> Writer \<Rightarrow> filesys
    \<Rightarrow> error option \<times> ToMarkdown \<times> Writer \<times> filesys"
where
  "GenerateTo ev tm blocks writer fs =
     (case GenFrontMatter ev tm writer of
        (Some err, w1) \<Rightarrow> (Some err, tm, w1, fs)
      | (None, w1) \<Rightarrow>
          (case GenContentBlocks ev blocks 0 (tm, fs) of
             (Some err, tm1, fs1) \<Rightarrow> (Some err, tm1, w1, fs1)
           | (None, tm1, fs1) \<Rightarrow>
               if ContentTemplate tm1 \<noteq> [] then
                 (case ReadFile (ContentTemplate tm1) fs1 of
                    Inl err \<Rightarrow> (Some err, tm1, w1, fs1)
                  | Inr src \<Rightarrow>
                      (case parseTemplate ev src of
                         Inl err \<Rightarrow> (Some err, tm1, w1, fs1)
                       | Inr t \<Rightarrow>
                           (case t tm1 of
                              (out, terr) \<Rightarrow>
                                (case ioCopy w1 out of
                                   (Some err, w2) \<Rightarrow> (Some err, tm1, w2, fs1)
                                 | (None, w2) \<Rightarrow> (terr, tm1, w2, fs1)))))
               else
                 (case ioCopy w1 (ContentBuffer tm1) of
                    (Some err, w2) \<Rightarrow> (Some err, tm1, w2, fs1)
                  | (None, w2) \<Rightarrow> (None, tm1\<lparr>ContentBuffer := []\<rparr>, w2, fs1))))"

section \<open>The generator (generator: cache.go and generator.go)\<close>

text \<open>loadCache: no path and no file give the empty cache; a file that cannot be read
  or parsed is an error. (A cache parsed without pages gets an empty map, which is what
  the model's map already is.)\<close>

definition loadCache :: "env \<Rightarrow> string \<Rightarrow> filesys \<Rightarrow> error + runCache" where
  "loadCache ev path fs =
     (if path = [] then Inr defaultCache
      else case ReadFile path fs of
             Inl err \<Rightarrow> if IsNotExist err then Inr defaultCache else Inl err
           | Inr content \<Rightarrow>
               (case jsonUnmarshal ev content of
                  Inl err \<Rightarrow> Inl err
                | Inr cache \<Rightarrow> Inr cache))"

definition saveCache :: "env \<Rightarrow> string \<Rightarrow> runCache \<Rightarrow> filesys \<Rightarrow> error option \<times> filesys" where
  "saveCache ev path cache fs =
     (if path = [] then (None, fs)
      else case jsonMarshalIndent ev cache of
             Inl err \<Rightarrow> (Some err, fs)
           | Inr content \<Rightarrow>
               (case (if Dir path \<noteq> ''.'' \<and> Dir path \<noteq> [] then MkdirAll (Dir path) fs
                      else (None, fs)) of
                  (Some err, fs1) \<Rightarrow> (Some err, fs1)
                | (None, fs1) \<Rightarrow> WriteFile path content fs1))"

text \<open>getPageTitle: the title property named "title" or "name" in any case, else the
  first title property that renders to a non-empty string.\<close>

fun namedTitle :: "(string \<times> DatabasePageProperty) list \<Rightarrow> string option" where
  "namedTitle [] = None"
| "namedTitle ((key, prop) # props) =
     (if PropType prop = DBPropTypeTitle \<and> (EqualFold key ''title'' \<or> EqualFold key ''name'')
      then Some (ConvertRichText (Title prop))
      else namedTitle props)"

fun anyTitle :: "(string \<times> DatabasePageProperty) list \<Rightarrow> string" where
  "anyTitle [] = []"
| "anyTitle ((key, prop) # props) =
     (if PropType prop = DBPropTypeTitle \<and> length (Title prop) > 0
         \<and> ConvertRichText (Title prop) \<noteq> []
      then ConvertRichText (Title prop)
      else anyTitle props)"

definition getPageTitle :: "Page \<Rightarrow> string" where
  "getPageTitle page =
     (case Properties page of
        OtherPageProperties \<Rightarrow> []
      | DatabasePageProperties props \<Rightarrow>
          (case namedTitle props of
             Some title \<Rightarrow> title
           | None \<Rightarrow> anyTitle props))"

definition generateArticleFilename :: "env \<Rightarrow> string \<Rightarrow> Time \<Rightarrow> Markdown \<Rightarrow> string" where
  "generateArticleFilename ev title date config =
     (let escapedTitle =
            ReplaceAll (ToValidUTF8 (ToLower (lowerCaseTable ev) title) []) '' '' ''-'';
          escapedFilename = escapedTitle @ ''.md''
      in if GroupByMonth config then Join [formatDate date, escapedFilename]
         else escapedFilename)"

text \<open>The filter stage of Run: the loop over the query results, run when there are
  keywords or a cutoff.\<close>

fun matchAllKeywords :: "env \<Rightarrow> string \<Rightarrow> string list \<Rightarrow> bool" where
  "matchAllKeywords ev lowerTitle [] = True"
| "matchAllKeywords ev lowerTitle (arg # args) =
     (if \<not> Contains lowerTitle (ToLower (lowerCaseTable ev) arg) then False
      else matchAllKeywords ev lowerTitle args)"

fun filterLoop :: "env \<Rightarrow> string list \<Rightarrow> Time option \<Rightarrow> Page list \<Rightarrow> Page list \<Rightarrow> Page list" where
  "filterLoop ev filterArgs since [] pagesToProcess = pagesToProcess"
| "filterLoop ev filterArgs since (page # results) pagesToProcess =
     (if (case since of None \<Rightarrow> False | Some s \<Rightarrow> \<not> After (LastEditedTime page) s)
      then filterLoop ev filterArgs since results pagesToProcess
      else if length filterArgs > 0 then
        (if getPageTitle page = []
         then filterLoop ev filterArgs since results pagesToProcess
         else if \<not> matchAllKeywords ev (ToLower (lowerCaseTable ev) (getPageTitle page)) filterArgs
         then filterLoop ev filterArgs since results pagesToProcess
         else filterLoop ev filterArgs since results (pagesToProcess @ [page]))
      else filterLoop ev filterArgs since results (pagesToProcess @ [page]))"

definition filterPages :: "env \<Rightarrow> string list \<Rightarrow> Time option \<Rightarrow> Page list \<Rightarrow> Page list" where
  "filterPages ev filterArgs since results =
     (if length filterArgs > 0 \<or> since \<noteq> None then filterLoop ev filterArgs since results []
      else results)"

text \<open>The cache check of Run: the pages left to render and the count of pages skipped
  as unchanged.\<close>

definition pageTitleOrID :: "Page \<Rightarrow> string" where
  "pageTitleOrID page = (if getPageTitle page = [] then ID page else getPageTitle page)"

fun cacheCheckLoop ::
  "env \<Rightarrow> Config \<Rightarrow> runCache \<Rightarrow> filesys \<Rightarrow> Page list \<Rightarrow> Page list \<Rightarrow> nat \<Rightarrow> Page list \<times> nat"
where
  "cacheCheckLoop ev config cache fs [] filteredPages unchangedSkipped =
     (filteredPages, unchangedSkipped)"
| "cacheCheckLoop ev config cache fs (page # pages) filteredPages unchangedSkipped =
     (let title = pageTitleOrID page;
          outputRelPath = generateArticleFilename ev title (CreatedTime page) (Markdown config);
          outputAbsPath = Join [PostSavePath (Markdown config), outputRelPath];
          pageEditedAt = cacheTimestamp (LastEditedTime page);
          skipAsUnchanged =
            (Incremental config \<and>
             (case Pages cache (ID page) of
                None \<Rightarrow> False
              | Some entry \<Rightarrow> LastEdited entry = pageEditedAt))
      in if skipAsUnchanged \<and> Stat outputAbsPath fs = None
         then cacheCheckLoop ev config cache fs pages filteredPages (unchangedSkipped + 1)
         else cacheCheckLoop ev config cache fs pages (filteredPages @ [page]) unchangedSkipped)"

definition cacheCheck :: "env \<Rightarrow> Config \<Rightarrow> runCache \<Rightarrow> filesys \<Rightarrow> Page list \<Rightarrow> Page list \<times> nat" where
  "cacheCheck ev config cache fs pagesToProcess = cacheCheckLoop ev config cache fs pagesToProcess [] 0"

text \<open>generate: the output file is created, the renderer is set up and run. The bytes
  written through the open file are its content when generate returns.\<close>

definition generate ::
  "env \<Rightarrow> Page \<Rightarrow> Block list \<Rightarrow> Markdown \<Rightarrow> string \<Rightarrow> string \<Rightarrow> filesys \<Rightarrow> error option \<times> filesys"
where
  "generate ev page blocks config outputAbsPath pageName fs =
     (case Create outputAbsPath fs of
        (Some err, fs1) \<Rightarrow> (Some (Wrapped ''error create file'' err), fs1)
      | (None, fs1) \<Rightarrow>
          (let tm = New\<lparr>ImgSavePath := Join [ImageSavePath config, pageName],
                        ImgVisitPath := Join [ImagePublicLink config, PathEscape ev pageName],
                        ContentTemplate := Template config\<rparr>
           in (case WithFrontMatter ev page tm fs1 of
                 (Some err, tm1, fs2) \<Rightarrow> (Some err, fs2)
               | (None, tm1, fs2) \<Rightarrow>
                   (let tm2 = (if ShortcodeSyntax config \<noteq> []
                               then EnableExtendedSyntax (ShortcodeSyntax config) tm1
                               else tm1)
                    in (case GenerateTo ev tm2 blocks (Writer [] None) fs2 of
                          (err, tm3, w, fs3) \<Rightarrow>
                            (err, putFile outputAbsPath (written w) fs3))))))"

text \<open>handlePage, the closure of Run that renders one page: a file recorded for the
  page under another path is removed, then the page is generated.\<close>

definition removeStale :: "Config \<Rightarrow> string \<Rightarrow> string \<Rightarrow> filesys \<Rightarrow> filesys" where
  "removeStale config previousOutputRelPath outputRelPath fs =
     (if Incremental config \<and> previousOutputRelPath \<noteq> []
         \<and> previousOutputRelPath \<noteq> outputRelPath
      then (let previousFile = Join [PostSavePath (Markdown config), previousOutputRelPath]
            in if Stat previousFile fs = None then snd (Remove previousFile fs) else fs)
      else fs)"

definition handlePage ::
  "env \<Rightarrow> Config \<Rightarrow> Page \<Rightarrow> Block list \<Rightarrow> string \<Rightarrow> filesys \<Rightarrow> (error + string) \<times> filesys"
where
  "handlePage ev config page blocks previousOutputRelPath fs =
     (let title = pageTitleOrID page;
          outputRelPath = generateArticleFilename ev title (CreatedTime page) (Markdown config);
          outputAbsPath = Join [PostSavePath (Markdown config), outputRelPath];
          fs1 = removeStale config previousOutputRelPath outputRelPath fs
      in case generate ev page blocks (Markdown config) outputAbsPath title fs1 of
           (Some err, fs2) \<Rightarrow> (Inl (Wrapped ''error generating blog post'' err), fs2)
         | (None, fs2) \<Rightarrow> (Inr outputRelPath, fs2))"

text \<open>The serial loop of Run over the pages to process: the cache, the count of status
  changes and the file system are threaded through.\<close>

fun serialLoop ::
  "env \<Rightarrow> Config \<Rightarrow> Page list \<Rightarrow> runCache \<Rightarrow> nat \<Rightarrow> filesys
    \<Rightarrow> error option \<times> runCache \<times> nat \<times> filesys"
where
  "serialLoop ev config [] cache changed fs = (None, cache, changed, fs)"
| "serialLoop ev config (page # pages) cache changed fs =
     (case queryBlockChildren ev (ID page) of
        Inl err \<Rightarrow> (Some (Wrapped ''error getting blocks'' err), cache, changed, fs)
      | Inr blocks \<Rightarrow>
          (let previousOutputRelPath =
                 (if Incremental config
                  then (case Pages cache (ID page) of
                          Some prev \<Rightarrow> OutputPath prev
                        | None \<Rightarrow> [])
                  else [])
           in (case handlePage ev config page blocks previousOutputRelPath fs of
                 (Inl err, fs1) \<Rightarrow> (Some err, cache, changed, fs1)
               | (Inr outputRelPath, fs1) \<Rightarrow>
                   serialLoop ev config pages
                     (cache\<lparr>Pages := (Pages cache)
                        (ID page \<mapsto> \<lparr>LastEdited = cacheTimestamp (LastEditedTime page),
                                     OutputPath = outputRelPath\<rparr>)\<rparr>)
                     (if changeStatus ev page (Notion config) then changed + 1 else changed)
                     fs1)))"

text \<open>
  Run. Console output is not part of the model. \<open>Run_prepare\<close> is Run up to the
  definition of handlePage: it either returns (with the error, if any) or goes on with
  the configuration, the pages left, the cache and the count of skipped pages.
  \<open>Run_serial\<close> is the rest of Run in serial mode. The branch for
  \<open>config.Parallelize\<close> runs the same steps for each page in goroutines bounded by
  a semaphore; the model does not cover it, and \<open>Run\<close> is \<open>None\<close> there.
\<close>

datatype 'a stage = Returned "error option" | Proceed 'a

definition Run_prepare ::
  "env \<Rightarrow> Config \<Rightarrow> string list \<Rightarrow> Time option \<Rightarrow> bool \<Rightarrow> filesys
    \<Rightarrow> (Config \<times> Page list \<times> runCache \<times> nat) stage \<times> filesys"
where
  "Run_prepare ev config0 filterArgs since dryRun fs =
     (let config = (if CacheFile config0 = []
                    then config0\<lparr>CacheFile := ''.notion-md-gen-cache.json''\<rparr>
                    else config0)
      in case MkdirAll (PostSavePath (Markdown config)) fs of
           (mkErr, fs1) \<Rightarrow>
             if mkErr \<noteq> None \<and> \<not> dryRun
             then (Returned (Some (Wrapped ''could not create content folder'' (the mkErr))), fs1)
             else
               (case queryDatabase ev (Notion config) of
                  Inl err \<Rightarrow> (Returned (Some (Wrapped ''Querying Notion database'' err)), fs1)
                | Inr results \<Rightarrow>
                    (let pagesToProcess = filterPages ev filterArgs since results
                     in if length pagesToProcess = 0 then (Returned None, fs1)
                        else
                          (case (if Incremental config then loadCache ev (CacheFile config) fs1
                                 else Inr defaultCache) of
                             Inl err \<Rightarrow>
                               (Returned (Some (Wrapped ''failed loading cache file'' err)), fs1)
                           | Inr cache \<Rightarrow>
                               (case cacheCheck ev config cache fs1 pagesToProcess of
                                  (filteredPages, unchangedSkipped) \<Rightarrow>
                                    if dryRun then (Returned None, fs1)
                                    else if length filteredPages = 0 then (Returned None, fs1)
                                    else (Proceed (config, filteredPages, cache, unchangedSkipped),
                                          fs1))))))"

definition Run_serial ::
  "env \<Rightarrow> Config \<Rightarrow> Page list \<Rightarrow> runCache \<Rightarrow> filesys \<Rightarrow> error option \<times> filesys"
where
  "Run_serial ev config pagesToProcess cache fs =
     (case serialLoop ev config pagesToProcess cache 0 fs of
        (Some err, cache1, changed, fs1) \<Rightarrow> (Some err, fs1)
      | (None, cache1, changed, fs1) \<Rightarrow>
          if Incremental config then
            (case saveCache ev (CacheFile config) cache1 fs1 of
               (Some err, fs2) \<Rightarrow> (Some (Wrapped ''failed writing cache file'' err), fs2)
             | (None, fs2) \<Rightarrow> (None, fs2))
          else (None, fs1))"

definition Run ::
  "env \<Rightarrow> Config \<Rightarrow> string list \<Rightarrow> Time option \<Rightarrow> bool \<Rightarrow> filesys
    \<Rightarrow> (error option \<times> filesys) option"
where
  "Run ev config filterArgs since dryRun fs =
     (case Run_prepare ev config filterArgs since dryRun fs of
        (Returned err, fs1) \<Rightarrow> Some (err, fs1)
      | (Proceed (config1, pagesToProcess, cache, unchangedSkipped), fs1) \<Rightarrow>
          if Parallelize config1 then None
          else Some (Run_serial ev config1 pagesToProcess cache fs1))"

section \<open>Properties of the rich-text renderer\<close>

lemma Sprintf_link: "Sprintf ''[%s](%s)'' [c, u] = ''['' @ c @ '']('' @ u @ '')''"
  by (simp add: sprintfExtra_def)

text \<open>
  Claim C6. A plain-text span renders its content, or the link form [content](url) when
  it carries a hyperlink, wrapped by annotation precedence: with the code annotation
  only in single back-ticks, whatever the other annotations are; otherwise in three
  stars for bold and italic, two for bold alone, one for italic alone, and the result
  in two underscores when underlined, else in two tildes when struck through. A span
  without annotations is not wrapped.
\<close>

theorem ConvertRich_annotation_precedence:
  "ConvertRich (RichTextTypeText a (Text content link)) =
     (let x = (case link of
                 None \<Rightarrow> content
               | Some l \<Rightarrow> ''['' @ content @ '']('' @ URL l @ '')'')
      in case a of
           None \<Rightarrow> x
         | Some an \<Rightarrow>
             if Code an then ''`'' @ x @ ''`''
             else
               let y = (if Bold an \<and> Italic an then ''***'' @ x @ ''***''
                        else if Bold an then ''**'' @ x @ ''**''
                        else if Italic an then ''*'' @ x @ ''*''
                        else x)
               in if Underline an then ''__'' @ y @ ''__''
                  else if Strikethrough an then ''~~'' @ y @ ''~~''
                  else y)"
proof (cases a)
  case None
  then show ?thesis
    by (cases link) (simp_all add: emphFormat_def Sprintf_link sprintfExtra_def)
next
  case (Some an)
  then show ?thesis
    by (cases link)
       (simp_all add: emphFormat_def Sprintf_link sprintfExtra_def Let_def)
qed

theorem ConvertRich_annotation_precedence_witness:
  "ConvertRich (RichTextTypeText
      (Some \<lparr>Bold = True, Italic = True, Strikethrough = True, Underline = True, Code = True,
             Color = ''red''\<rparr>)
      (Text ''x%s'' (Some (Link ''http://a/b'')))) = ''`[x%s](http://a/b)`''
   \<and> ConvertRich (RichTextTypeText
      (Some \<lparr>Bold = True, Italic = False, Strikethrough = True, Underline = False, Code = False,
             Color = []\<rparr>)
      (Text ''x'' None)) = ''~~**x**~~''"
  using ConvertRich_annotation_precedence
          [of "Some \<lparr>Bold = True, Italic = True, Strikethrough = True, Underline = True,
                     Code = True, Color = ''red''\<rparr>" "''x%s''" "Some (Link ''http://a/b'')"]
        ConvertRich_annotation_precedence
          [of "Some \<lparr>Bold = True, Italic = False, Strikethrough = True, Underline = False,
                     Code = False, Color = []\<rparr>" "''x''" None]
  by simp

section \<open>Properties of the front matter\<close>

text \<open>
  Claim C10. When the YAML serialization of the front matter fails, GenFrontMatter
  returns no error and writes nothing; with an empty front-matter map it writes nothing
  either, no line of dashes.
\<close>

theorem GenFrontMatter_marshal_failure_silent:
  "(yamlMarshal ev (lowerKeys ev (FrontMatter tm)) = Inl err
      \<longrightarrow> GenFrontMatter ev tm writer = (None, writer))
   \<and> (FrontMatter tm = [] \<longrightarrow> GenFrontMatter ev tm writer = (None, writer))"
  by (simp add: GenFrontMatter_def)

text \<open>A collaborator record for concrete runs: the network is down, there are no
  templates, and every codec reports an error. Its case table is the one of the Latin-1
  range U+0080 to U+00FF (the capital letters U+00C0 to U+00DE but the multiplication
  sign, 32 below their small forms); the concrete runs use no letter beyond it.\<close>

definition latin1Lower :: "rune \<Rightarrow> rune" where
  "latin1Lower r = (if 192 \<le> r \<and> r \<le> 222 \<and> r \<noteq> 215 then r + 32 else r)"

definition offlineEnv :: env where
  "offlineEnv =
     \<lparr>lowerCaseTable = latin1Lower,
      queryDatabase = (\<lambda>_. Inl (External ''offline'')),
      queryBlockChildren = (\<lambda>_. Inl (External ''offline'')),
      changeStatus = (\<lambda>_ _. False),
      httpGet = (\<lambda>_. Inl (External ''offline'')),
      urlParse = (\<lambda>_. Inl (External ''parse'')),
      PathEscape = (\<lambda>s. s),
      opengraphFetch = (\<lambda>_. Inl (External ''offline'')),
      templates = (\<lambda>_. None),
      parseTemplate = (\<lambda>_. Inl (External ''template'')),
      yamlMarshal = (\<lambda>_. Inl (External ''yaml'')),
      jsonMarshalIndent = (\<lambda>_. Inl (External ''json'')),
      jsonUnmarshal = (\<lambda>_. Inl (External ''json''))\<rparr>"

theorem GenFrontMatter_marshal_failure_silent_witness:
  "yamlMarshal offlineEnv (lowerKeys offlineEnv [(''Title'', FmString ''x'')]) = Inl (External ''yaml'')
   \<and> GenFrontMatter offlineEnv (New\<lparr>FrontMatter := [(''Title'', FmString ''x'')]\<rparr>)
         (Writer ''abc'' None) = (None, Writer ''abc'' None)
   \<and> GenFrontMatter offlineEnv New (Writer ''abc'' None) = (None, Writer ''abc'' None)"
  using GenFrontMatter_marshal_failure_silent
          [of offlineEnv "New\<lparr>FrontMatter := [(''Title'', FmString ''x'')]\<rparr>"
              "External ''yaml''" "Writer ''abc'' None"]
        GenFrontMatter_marshal_failure_silent
          [of offlineEnv New "External ''yaml''" "Writer ''abc'' None"]
  by (simp add: offlineEnv_def New_def)

section \<open>Properties of the block renderer\<close>

subsection \<open>The loop of GenContentBlocks, unfolded\<close>

lemma GenContentBlocks_loop_Cons:
  "GenContentBlocks_loop ev (b # bs) depth sIdx lt st =
     (if shouldSkipRender (fst st) (BlockType b)
      then GenContentBlocks_loop ev bs depth sIdx lt st
      else let idx = (if BlockType b \<noteq> lt then 0 else sIdx + 1)
           in case renderSibling ev depth b idx st of
                (Some err, st1) \<Rightarrow> (Some err, st1)
              | (None, st1) \<Rightarrow> GenContentBlocks_loop ev bs depth idx (BlockType b) st1)"
  by (simp add: GenContentBlocks_loop.simps(2) renderSibling_def Let_def
        split: prod.splits option.splits)

subsection \<open>Rendering does not switch the extended syntax on or off\<close>





subsection \<open>The index of a block among its rendered siblings\<close>
















definition emptyFs :: filesys where
  "emptyFs = \<lparr>fileList = [], dirs = {}\<rparr>"

definition plainBlock :: "string \<Rightarrow> Block" where
  "plainBlock t = Block t False None None [] []"



subsection \<open>Download failures\<close>

lemma saveTo_extra:
  "saveTo ev (tm\<lparr>extra := x\<rparr>) reader rawURL distDir fs = saveTo ev tm reader rawURL distDir fs"
  by (simp add: saveTo_def Let_def split: sum.splits prod.splits option.splits)

lemma download_extra:
  "download ev (tm\<lparr>extra := x\<rparr>) url fs = download ev tm url fs"
  by (simp add: download_def saveTo_extra split: sum.splits)

lemma downloadImage_extra:
  "downloadImage ev (tm\<lparr>extra := x\<rparr>) img fs = downloadImage ev tm img fs"
  by (simp add: downloadImage_def download_extra split: prod.splits sum.splits)

lemma image_not_skipped: "\<not> shouldSkipRender tm BlockTypeImage"
  by (simp add: shouldSkipRender_def blockTypeInExtendedSyntaxBlocks_def
        extendedSyntaxBlocks_def BlockTypeImage_def BlockTypeBookmark_def BlockTypeCallout_def)

lemma renderSibling_image_failure:
  assumes "BlockType block = BlockTypeImage" and "Image block = Some img"
    and "fst (downloadImage ev tm img fs) = Some err"
  shows "fst (renderSibling ev depth block idx (tm, fs)) = Some err"
  using assms
  by (auto simp: renderSibling_def Let_def downloadImage_extra split: prod.splits)

lemma GenerateTo_content_error:
  assumes "fst (GenFrontMatter ev tm w) = None"
    and "fst (GenContentBlocks ev blocks 0 (tm, fs)) = Some err"
  shows "fst (GenerateTo ev tm blocks w fs) = Some err"
  using assms by (auto simp: GenerateTo_def split: prod.splits option.splits)

text \<open>
  Claim C4, as the code has it. A failure to download the image of an image block
  (the HTTP request, the URL, the directory, the file or the copy) ends the loop of
  GenContentBlocks with that error, and GenerateTo returns it: the generation of the page
  is aborted. A failure to download the cover is not reported: injectFrontMatterCover
  returns without an error and leaves the front matter as it was, without a cover key.
\<close>

theorem download_failure_fatal_for_blocks_not_cover:
  "(BlockType block = BlockTypeImage \<and> Image block = Some img
      \<and> fst (downloadImage ev tm img fs) = Some err
     \<longrightarrow> fst (GenContentBlocks_loop ev (block # blocks) depth sIdx lt (tm, fs)) = Some err)
   \<and> (fst (GenFrontMatter ev tm w) = None
        \<and> fst (GenContentBlocks ev blocks 0 (tm, fs)) = Some err
     \<longrightarrow> fst (GenerateTo ev tm blocks w fs) = Some err)
   \<and> (fst (downloadImage ev tm c fs) = Some err
     \<longrightarrow> fst (injectFrontMatterCover ev (Some c) tm fs) = tm)"
proof (intro conjI impI)
  assume a: "BlockType block = BlockTypeImage \<and> Image block = Some img
      \<and> fst (downloadImage ev tm img fs) = Some err"
  then have "fst (renderSibling ev depth block (if BlockType block \<noteq> lt then 0 else sIdx + 1)
                    (tm, fs)) = Some err"
    by (simp add: renderSibling_image_failure)
  then show "fst (GenContentBlocks_loop ev (block # blocks) depth sIdx lt (tm, fs)) = Some err"
    using a image_not_skipped[of tm]
    by (auto simp: GenContentBlocks_loop_Cons Let_def split: prod.splits option.splits)
next
  assume "fst (GenFrontMatter ev tm w) = None
        \<and> fst (GenContentBlocks ev blocks 0 (tm, fs)) = Some err"
  then show "fst (GenerateTo ev tm blocks w fs) = Some err"
    by (simp add: GenerateTo_content_error)
next
  assume "fst (downloadImage ev tm c fs) = Some err"
  then show "fst (injectFrontMatterCover ev (Some c) tm fs) = tm"
    by (cases c) (auto simp: injectFrontMatterCover_def split: prod.splits option.splits)
qed

text \<open>A page with a cover and no properties, and a configuration, for concrete runs.\<close>

definition samplePage :: Page where
  "samplePage =
     \<lparr>ID = ''page-1'',
      CreatedTime = \<lparr>unixSec = 1709596800, nsec = 0, offset = 0\<rparr>,
      LastEditedTime = \<lparr>unixSec = 1709600000, nsec = 0, offset = 0\<rparr>,
      Properties = DatabasePageProperties [],
      Cover = Some (FileBlock ''external'' [] ''http://example.org/cover.png'')\<rparr>"

definition sampleMarkdown :: Markdown where
  "sampleMarkdown =
     \<lparr>ShortcodeSyntax = [], PageNamePrefix = [], PostSavePath = ''posts'',
      ImageSavePath = ''static/images'', ImagePublicLink = ''/images'',
      GroupByMonth = False, Template = []\<rparr>"

definition imageBlock :: Block where
  "imageBlock =
     Block ''image'' False (Some (FileBlock ''external'' [] ''http://example.org/a.png''))
       None [] []"

theorem download_failure_witness:
  "BlockType imageBlock = BlockTypeImage
   \<and> Image imageBlock = Some (FileBlock ''external'' [] ''http://example.org/a.png'')
   \<and> fst (downloadImage offlineEnv New
             (FileBlock ''external'' [] ''http://example.org/a.png'') emptyFs)
       = Some (External ''offline'')
   \<and> fst (GenContentBlocks_loop offlineEnv [imageBlock, plainBlock ''paragraph''] 0 0 []
             (New, emptyFs)) = Some (External ''offline'')
   \<and> fst (injectFrontMatterCover offlineEnv
             (Some (FileBlock ''external'' [] ''http://example.org/a.png'')) New emptyFs) = New
   \<and> fst (GenFrontMatter offlineEnv New (Writer [] None)) = None
   \<and> fst (GenContentBlocks offlineEnv [imageBlock] 0 (New, emptyFs))
       = Some (External ''offline'')
   \<and> fst (GenerateTo offlineEnv New [imageBlock] (Writer [] None) emptyFs)
       = Some (External ''offline'')"
proof -
  have a: "BlockType imageBlock = BlockTypeImage"
    by (simp add: imageBlock_def BlockTypeImage_def)
  have b: "Image imageBlock = Some (FileBlock ''external'' [] ''http://example.org/a.png'')"
    by (simp add: imageBlock_def)
  have c: "fst (downloadImage offlineEnv New
             (FileBlock ''external'' [] ''http://example.org/a.png'') emptyFs)
       = Some (External ''offline'')"
    by (simp add: downloadImage_def download_def offlineEnv_def FileTypeExternal_def)
  have d: "fst (GenFrontMatter offlineEnv New (Writer [] None)) = None"
    by code_simp
  have e: "fst (GenContentBlocks offlineEnv [imageBlock] 0 (New, emptyFs))
             = Some (External ''offline'')"
    by code_simp
  show ?thesis
    using download_failure_fatal_for_blocks_not_cover
            [where block = imageBlock
               and img = "FileBlock ''external'' [] ''http://example.org/a.png''"
               and ev = offlineEnv and tm = New and fs = emptyFs
               and err = "External ''offline''" and blocks = "[plainBlock ''paragraph'']"
               and depth = 0 and sIdx = 0 and lt = "[]"
               and c = "FileBlock ''external'' [] ''http://example.org/a.png''"]
          download_failure_fatal_for_blocks_not_cover
            [where ev = offlineEnv and tm = New and fs = emptyFs
               and err = "External ''offline''" and blocks = "[imageBlock]"
               and w = "Writer [] None"]
          a b c d e
    by simp
qed

text \<open>With the network down the cover of the sample page cannot be downloaded, and the
  page is generated all the same: generate returns no error and the output file is
  there.\<close>

theorem cover_download_failure_ignored_counterexample:
  "fst (downloadImage offlineEnv
          (New\<lparr>ImgSavePath := Join [ImageSavePath sampleMarkdown, ''t''],
                ImgVisitPath := Join [ImagePublicLink sampleMarkdown, PathEscape offlineEnv ''t''],
                ContentTemplate := Template sampleMarkdown\<rparr>)
          (FileBlock ''external'' [] ''http://example.org/cover.png'')
          (snd (Create ''out.md'' emptyFs)))
     = Some (External ''offline'')
   \<and> fst (generate offlineEnv samplePage [] sampleMarkdown ''out.md'' ''t'' emptyFs) = None
   \<and> files (snd (generate offlineEnv samplePage [] sampleMarkdown ''out.md'' ''t'' emptyFs))
        ''out.md'' = Some []"
  by code_simp

section \<open>Properties of the generator\<close>

subsection \<open>The filter stage\<close>






text \<open>Pages with a title property, for concrete runs.\<close>

definition titledPage :: "string \<Rightarrow> string \<Rightarrow> string \<Rightarrow> int \<Rightarrow> Page" where
  "titledPage pid key title edited =
     \<lparr>ID = pid,
      CreatedTime = \<lparr>unixSec = 1709596800, nsec = 0, offset = 0\<rparr>,
      LastEditedTime = \<lparr>unixSec = edited, nsec = 0, offset = 0\<rparr>,
      Properties = DatabasePageProperties
        [(key, \<lparr>PropType = DBPropTypeTitle,
                 Title = [RichTextTypeText None (Text title None)],
                 PropValue = RichTextValue [RichTextTypeText None (Text title None)]\<rparr>)],
      Cover = None\<rparr>"


subsection \<open>The cache check\<close>

text \<open>The condition under which Run skips a page as unchanged: incremental mode is on,
  the cache has an entry for the page whose timestamp string equals the one computed
  from the page, and a file or directory exists at the output path computed for the
  page now.\<close>

definition outputAbsPathOf :: "env \<Rightarrow> Config \<Rightarrow> Page \<Rightarrow> string" where
  "outputAbsPathOf ev config page =
     Join [PostSavePath (Markdown config),
           generateArticleFilename ev (pageTitleOrID page) (CreatedTime page) (Markdown config)]"

definition skipsAsUnchanged :: "env \<Rightarrow> Config \<Rightarrow> runCache \<Rightarrow> filesys \<Rightarrow> Page \<Rightarrow> bool" where
  "skipsAsUnchanged ev config cache fs page =
     (Incremental config
      \<and> (case Pages cache (ID page) of
            None \<Rightarrow> False
          | Some entry \<Rightarrow> LastEdited entry = cacheTimestamp (LastEditedTime page))
      \<and> Stat (outputAbsPathOf ev config page) fs = None)"

lemma cacheCheckLoop_filter:
  "cacheCheckLoop ev config cache fs pages filtered skipped =
     (filtered @ filter (\<lambda>p. \<not> skipsAsUnchanged ev config cache fs p) pages,
      skipped + length (filter (skipsAsUnchanged ev config cache fs) pages))"
proof (induction pages arbitrary: filtered skipped)
  case Nil
  show ?case by simp
next
  case (Cons page pages)
  show ?case
    using Cons.IH[of filtered "skipped + 1"] Cons.IH[of "filtered @ [page]" skipped]
    by (auto simp: skipsAsUnchanged_def outputAbsPathOf_def Let_def split: option.splits)
qed

text \<open>
  Claim C3, as the code has it. The cache check removes a page from the pages to render
  if and only if incremental mode is on, the cache has an entry for the page's ID, the
  stored timestamp string equals the timestamp computed from the page's last-edited
  time, and something exists at the output path computed from the page's present title
  and the present configuration (not the path recorded in the cache entry). The pages
  kept stay in order, and the count of skipped pages is the number of pages removed.
\<close>

theorem cacheCheck_skips_iff:
  "cacheCheck ev config cache fs pages =
     (filter (\<lambda>p. \<not> skipsAsUnchanged ev config cache fs p) pages,
      length (filter (skipsAsUnchanged ev config cache fs) pages))"
  by (simp add: cacheCheck_def cacheCheckLoop_filter)

text \<open>A configuration in incremental mode, a cache that records the page p1 under the
  path old.md with its present timestamp, and file systems, for concrete runs.\<close>

definition sampleConfig :: Config where
  "sampleConfig =
     \<lparr>Notion = \<lparr>DatabaseID = ''db'', FilterProp = ''Status'', FilterValue = [''Finished''],
                 PublishedValue = ''Published''\<rparr>,
      Markdown = sampleMarkdown,
      Parallelize = False, Parallelism = 1,
      CacheFile = ''cache.json'', Incremental = True\<rparr>"

definition sampleCache :: runCache where
  "sampleCache =
     \<lparr>Pages = [''p1'' \<mapsto> \<lparr>LastEdited = ''2024-03-05T00:53:20Z'', OutputPath = ''old.md''\<rparr>]\<rparr>"

definition fsWith :: "(string \<times> string) list \<Rightarrow> string list \<Rightarrow> filesys" where
  "fsWith fl dl = \<lparr>fileList = fl, dirs = set dl\<rparr>"

theorem cacheCheck_skips_iff_witness:
  "cacheCheck offlineEnv sampleConfig sampleCache
     (fsWith [(''posts/hello-world!.md'', ''text'')] [''posts''])
     [titledPage ''p1'' ''Name'' ''Hello World!'' 1709600000,
      titledPage ''p2'' ''Name'' ''Other'' 1709600000]
   = ([titledPage ''p2'' ''Name'' ''Other'' 1709600000], 1)
   \<and> cacheCheck offlineEnv sampleConfig sampleCache (fsWith [] [''posts''])
        [titledPage ''p1'' ''Name'' ''Hello World!'' 1709600000]
      = ([titledPage ''p1'' ''Name'' ''Hello World!'' 1709600000], 0)"
proof -
  have a: "skipsAsUnchanged offlineEnv sampleConfig sampleCache
             (fsWith [(''posts/hello-world!.md'', ''text'')] [''posts''])
             (titledPage ''p1'' ''Name'' ''Hello World!'' 1709600000)"
    by code_simp
  have b: "\<not> skipsAsUnchanged offlineEnv sampleConfig sampleCache
             (fsWith [(''posts/hello-world!.md'', ''text'')] [''posts''])
             (titledPage ''p2'' ''Name'' ''Other'' 1709600000)"
    by code_simp
  have c: "\<not> skipsAsUnchanged offlineEnv sampleConfig sampleCache (fsWith [] [''posts''])
             (titledPage ''p1'' ''Name'' ''Hello World!'' 1709600000)"
    by code_simp
  show ?thesis
    using a b c by (simp add: cacheCheck_skips_iff)
qed

text \<open>The page p1 is unchanged and the file recorded for it, posts/old.md, exists, but
  its output path is now posts/hello-world!.md, where there is nothing: all four
  conditions of the claim hold, and the page is rendered again.\<close>

theorem cacheCheck_recorded_path_counterexample:
  "Incremental sampleConfig
   \<and> Pages sampleCache (ID (titledPage ''p1'' ''Name'' ''Hello World!'' 1709600000))
       = Some \<lparr>LastEdited = ''2024-03-05T00:53:20Z'', OutputPath = ''old.md''\<rparr>
   \<and> cacheTimestamp (LastEditedTime (titledPage ''p1'' ''Name'' ''Hello World!'' 1709600000))
       = ''2024-03-05T00:53:20Z''
   \<and> Stat (Join [PostSavePath (Markdown sampleConfig), ''old.md''])
         (fsWith [(''posts/old.md'', ''text'')] [''posts'']) = None
   \<and> cacheCheck offlineEnv sampleConfig sampleCache (fsWith [(''posts/old.md'', ''text'')] [''posts''])
        [titledPage ''p1'' ''Name'' ''Hello World!'' 1709600000]
      = ([titledPage ''p1'' ''Name'' ''Hello World!'' 1709600000], 0)"
  by code_simp

subsection \<open>The output file name\<close>

text \<open>The slug of an ASCII title: lower-cased, with a hyphen for every space.\<close>

definition asciiSlug :: "string \<Rightarrow> string" where
  "asciiSlug title = map (\<lambda>c. if c = CHR '' '' then CHR ''-'' else asciiLower c) title"

text \<open>The file name as the specification words it: the title lower-cased, the bytes
  beyond ASCII removed, a hyphen for every space, and the extension.\<close>

definition claimedFilename :: "env \<Rightarrow> string \<Rightarrow> string" where
  "claimedFilename ev title =
     map (\<lambda>c. if c = CHR '' '' then CHR ''-'' else c)
         (filter (\<lambda>c. byte c < 128) (ToLower (lowerCaseTable ev) title)) @ ''.md''"

lemma byte_char_of: "byte (char_of (n::nat)) = n mod 256"
  by (simp add: byte_def)

lemma asciiLower_cases:
  "asciiLower c = c \<or> (65 \<le> byte c \<and> byte c \<le> 90 \<and> byte (asciiLower c) = byte c + 32)"
proof (cases "65 \<le> byte c \<and> byte c \<le> 90")
  case True
  then have "byte (asciiLower c) = (byte c + 32) mod 256"
    by (simp add: asciiLower_def byte_char_of)
  with True show ?thesis by simp
next
  case False
  then have "asciiLower c = c" unfolding asciiLower_def by (simp only: if_False)
  then show ?thesis by simp
qed

lemma byte_asciiLower: "byte c < 128 \<Longrightarrow> byte (asciiLower c) < 128"
  using asciiLower_cases[of c] by auto

lemma asciiLower_eq_iff:
  assumes "byte x < 65 \<or> 122 < byte x"
  shows "asciiLower c = x \<longleftrightarrow> c = x"
proof
  assume "asciiLower c = x"
  with asciiLower_cases[of c] assms show "c = x" by auto
next
  assume "c = x"
  with assms asciiLower_cases[of c] show "asciiLower c = x" by auto
qed

lemma asciiLower_space: "asciiLower c = CHR '' '' \<longleftrightarrow> c = CHR '' ''"
  by (rule asciiLower_eq_iff) (simp add: byte_def)

lemma asciiLower_slash: "asciiLower c = CHR ''/'' \<longleftrightarrow> c = CHR ''/''"
  by (rule asciiLower_eq_iff) (simp add: byte_def)

lemma isASCII_map_asciiLower: "isASCII s \<Longrightarrow> isASCII (map asciiLower s)"
  by (induction s) (auto simp: isASCII_def byte_asciiLower)

lemma toValid_ascii: "isASCII s \<Longrightarrow> toValid flag r s = s"
  by (induction s arbitrary: flag) (auto simp: isASCII_def)

lemma ReplaceAll_space:
  "ReplaceAll s '' '' ''-'' = map (\<lambda>c. if c = CHR '' '' then CHR ''-'' else c) s"
  by (induction s) auto

lemma escapedTitle_ascii:
  assumes "isASCII title"
  shows "ReplaceAll (ToValidUTF8 (ToLower caseTable title) []) '' '' ''-'' = asciiSlug title"
proof -
  have "ToLower caseTable title = map asciiLower title"
    using assms by (simp add: ToLower_def)
  moreover have "ToValidUTF8 (map asciiLower title) [] = map asciiLower title"
    using isASCII_map_asciiLower[OF assms] by (simp add: ToValidUTF8_def toValid_ascii)
  ultimately show ?thesis
    by (simp add: ReplaceAll_space asciiSlug_def asciiLower_space)
qed

lemma char_of_digit_ne:
  assumes "k < 10" and "byte c < 48 \<or> 57 < byte c"
  shows "char_of (48 + k :: nat) \<noteq> c"
proof
  assume "char_of (48 + k) = c"
  then have "byte (char_of (48 + k)) = byte c" by simp
  then have "(48 + k) mod 256 = byte c" by (simp only: byte_char_of)
  with assms show False by auto
qed

lemma digits_no_slash: "CHR ''/'' \<notin> set (digits n)"
proof (induction n rule: digits.induct)
  case (1 n)
  have sl: "byte CHR ''/'' < 48 \<or> 57 < byte CHR ''/''" by (simp add: byte_def)
  have a: "char_of (48 + n mod 10) \<noteq> CHR ''/''"
    by (rule char_of_digit_ne[OF _ sl]) simp
  show ?case
  proof (cases "n < 10")
    case True
    then have "char_of (48 + n) \<noteq> CHR ''/''"
      by (rule char_of_digit_ne[OF _ sl])
    with True show ?thesis by (subst digits.simps) simp
  next
    case False
    with 1 a show ?thesis by (subst digits.simps) simp
  qed
qed

lemma appendInt_no_slash: "CHR ''/'' \<notin> set (appendInt x w)"
  by (simp add: appendInt_def Let_def digits_no_slash)

lemma formatDate_no_slash: "CHR ''/'' \<notin> set (formatDate t)"
  by (cases "civil (localSec t div 86400)") (simp add: formatDate_def appendInt_no_slash)

lemma formatDate_hyphen: "CHR ''-'' \<in> set (formatDate t)"
  by (cases "civil (localSec t div 86400)") (simp add: formatDate_def)

lemma splitOn_nosep: "sep \<notin> set s \<Longrightarrow> splitOn sep s = [s]"
  by (induction s) auto

lemma splitOn_append:
  "sep \<notin> set a \<Longrightarrow> splitOn sep (a @ sep # b) = a # splitOn sep b"
  by (induction a) auto

lemma asciiSlug_no_slash: "CHR ''/'' \<notin> set title \<Longrightarrow> CHR ''/'' \<notin> set (asciiSlug title)"
proof (induction title)
  case Nil
  show ?case by (simp add: asciiSlug_def)
next
  case (Cons c cs)
  then have "CHR ''/'' \<notin> set (asciiSlug cs)" and "c \<noteq> CHR ''/''" by auto
  moreover have "asciiSlug (c # cs) = (if c = CHR '' '' then CHR ''-'' else asciiLower c) # asciiSlug cs"
    by (simp add: asciiSlug_def)
  ultimately show ?case
    using asciiLower_slash[of c] by auto
qed

lemma Clean_Cons:
  "Clean (c # cs) =
     (if c = CHR ''/''
      then CHR ''/'' # joinWith ''/'' (rev (foldl (cleanStep True) [] (splitOn CHR ''/'' (c # cs))))
      else if joinWith ''/'' (rev (foldl (cleanStep False) [] (splitOn CHR ''/'' (c # cs)))) = []
      then ''.''
      else joinWith ''/'' (rev (foldl (cleanStep False) [] (splitOn CHR ''/'' (c # cs)))))"
  by (simp add: Clean_def Let_def)

lemma Join_two:
  assumes "CHR ''/'' \<notin> set d" and "CHR ''/'' \<notin> set f"
    and "d \<noteq> []" and "d \<noteq> ''.''" and "d \<noteq> ''..''"
    and "f \<noteq> []" and "f \<noteq> ''.''" and "f \<noteq> ''..''"
  shows "Join [d, f] = d @ ''/'' @ f"
proof -
  obtain c ds where d: "d = c # ds" using assms(3) by (cases d) auto
  have c: "c \<noteq> CHR ''/''" using assms(1) d by auto
  have s: "splitOn CHR ''/'' (d @ CHR ''/'' # f) = [d, f]"
    using assms(1,2) by (simp add: splitOn_append splitOn_nosep)
  have fold: "foldl (cleanStep False) [] [d, f] = [f, d]"
    using assms(3-8) by (simp add: cleanStep_def)
  have j: "joinWith ''/'' (rev [f, d]) = d @ ''/'' @ f"
    by simp
  have ne: "d @ ''/'' @ f \<noteq> []" using assms(3) by simp
  have e: "d @ ''/'' @ f = c # (ds @ CHR ''/'' # f)" by (simp add: d)
  have s': "splitOn CHR ''/'' (c # (ds @ CHR ''/'' # f)) = [d, f]"
    using s unfolding d by simp
  have "Clean (c # (ds @ CHR ''/'' # f)) = d @ ''/'' @ f"
    unfolding Clean_Cons s' fold j using c ne by (simp only: if_False)
  then have "Clean (d @ ''/'' @ f) = d @ ''/'' @ f"
    unfolding e .
  moreover have "Join [d, f] = Clean (d @ ''/'' @ f)"
    using assms(3,6) by (simp add: Join_def)
  ultimately show ?thesis by simp
qed

text \<open>
  Claim C5, as the code has it. For a title made of ASCII characters the output file
  name is the title lower-cased, with a hyphen for every space and ".md" appended. With
  month grouping the name is joined to the creation date formatted as YYYY-MM-DD: for a
  title without a slash that is the date, a slash and the name. Characters beyond ASCII
  are not removed from a title: strings.ToValidUTF8 removes only bytes that are not
  valid UTF-8.
\<close>

theorem generateArticleFilename_ascii:
  assumes "isASCII title"
  shows "generateArticleFilename ev title date config =
           (if GroupByMonth config
            then (if CHR ''/'' \<in> set title
                  then Join [formatDate date, asciiSlug title @ ''.md'']
                  else formatDate date @ ''/'' @ asciiSlug title @ ''.md'')
            else asciiSlug title @ ''.md'')"
proof (cases "GroupByMonth config \<and> CHR ''/'' \<notin> set title")
  case False
  then show ?thesis
    using assms by (auto simp: generateArticleFilename_def escapedTitle_ascii Let_def)
next
  case True
  have d: "formatDate date \<noteq> []" "formatDate date \<noteq> ''.''" "formatDate date \<noteq> ''..''"
    using formatDate_hyphen[of date] by auto
  have f: "CHR ''/'' \<notin> set (asciiSlug title @ ''.md'')"
    using True by (simp add: asciiSlug_no_slash)
  have "Join [formatDate date, asciiSlug title @ ''.md''] =
          formatDate date @ ''/'' @ asciiSlug title @ ''.md''"
    using Join_two[OF formatDate_no_slash f d] by simp
  then show ?thesis
    using assms True by (simp add: generateArticleFilename_def escapedTitle_ascii Let_def)
qed

theorem generateArticleFilename_ascii_witness:
  "isASCII ''Hello World!''
   \<and> generateArticleFilename offlineEnv ''Hello World!'' \<lparr>unixSec = 1709596800, nsec = 0, offset = 0\<rparr>
        sampleMarkdown = ''hello-world!.md''
   \<and> generateArticleFilename offlineEnv ''Hello World!'' \<lparr>unixSec = 1709596800, nsec = 0, offset = 0\<rparr>
        (sampleMarkdown\<lparr>GroupByMonth := True\<rparr>) = ''2024-03-05/hello-world!.md''"
proof -
  have h: "isASCII ''Hello World!''" by code_simp
  have s: "asciiSlug ''Hello World!'' = ''hello-world!''" by code_simp
  have d: "formatDate \<lparr>unixSec = 1709596800, nsec = 0, offset = 0\<rparr> = ''2024-03-05''"
    by code_simp
  show ?thesis
    using generateArticleFilename_ascii
            [OF h, of offlineEnv "\<lparr>unixSec = 1709596800, nsec = 0, offset = 0\<rparr>"
               sampleMarkdown]
          generateArticleFilename_ascii
            [OF h, of offlineEnv "\<lparr>unixSec = 1709596800, nsec = 0, offset = 0\<rparr>"
               "sampleMarkdown\<lparr>GroupByMonth := True\<rparr>"]
          h s d
    by (simp add: sampleMarkdown_def)
qed

text \<open>The title "e-acute, exclamation mark" keeps its two-byte letter in the file name,
  where the wording of the claim leaves only the exclamation mark.\<close>

theorem generateArticleFilename_non_ascii_counterexample:
  "generateArticleFilename offlineEnv [CHR 0xC3, CHR 0xA9, CHR ''!'']
       \<lparr>unixSec = 1709596800, nsec = 0, offset = 0\<rparr> sampleMarkdown
     = [CHR 0xC3, CHR 0xA9, CHR ''!'', CHR ''.'', CHR ''m'', CHR ''d'']
   \<and> claimedFilename offlineEnv [CHR 0xC3, CHR 0xA9, CHR ''!''] = ''!.md''"
  by code_simp

subsection \<open>The cache file\<close>







subsection \<open>The stale output file\<close>

lemma Clean_nonempty: "Clean p \<noteq> []"
  by (cases p) (auto simp: Clean_def Let_def)

lemma Join_nonempty: "b \<noteq> [] \<Longrightarrow> Join [a, b] \<noteq> []"
  by (simp add: Join_def Clean_nonempty)

lemma removeStale_removes:
  assumes "Incremental config" and "prev \<noteq> []" and "prev \<noteq> rel"
    and "isFile fs (Clean (Join [PostSavePath (Markdown config), prev]))"
  shows "\<not> isFile (removeStale config prev rel fs)
             (Clean (Join [PostSavePath (Markdown config), prev]))"
proof -
  let ?previousFile = "Join [PostSavePath (Markdown config), prev]"
  have ne: "?previousFile \<noteq> []" using assms(2) by (rule Join_nonempty)
  have st: "Stat ?previousFile fs = None"
    using ne assms(4) by (simp add: Stat_def)
  have "removeStale config prev rel fs = snd (Remove ?previousFile fs)"
    using assms(1-3) st by (simp add: removeStale_def)
  also have "\<dots> = dropFile (Clean ?previousFile) fs"
    using ne assms(4) by (simp add: Remove_def Let_def)
  finally show ?thesis by (simp add: isFile_def)
qed

lemma generate_create_fails:
  "createError outputAbsPath fs = Some e \<Longrightarrow>
   generate ev page blocks config outputAbsPath pageName fs
     = (Some (Wrapped ''error create file'' e), fs)"
  by (simp add: generate_def Create_def)

text \<open>
  Claim C2, as the code has it. For a page processed in incremental mode whose recorded
  output path is not empty and differs from the output path computed now, handlePage
  removes the recorded file, if it is there, before it generates the new file, not after
  the generation has succeeded: the file is gone from the file system that the
  generation starts on, and when the new output file cannot be created handlePage
  returns the error and leaves the file system without the recorded file.
\<close>

theorem handlePage_removes_stale_first:
  assumes "Incremental config" and "prev \<noteq> []"
    and "prev \<noteq> generateArticleFilename ev (pageTitleOrID page) (CreatedTime page)
                   (Markdown config)"
    and "isFile fs (Clean (Join [PostSavePath (Markdown config), prev]))"
  shows "\<not> isFile
            (removeStale config prev
               (generateArticleFilename ev (pageTitleOrID page) (CreatedTime page)
                  (Markdown config)) fs)
            (Clean (Join [PostSavePath (Markdown config), prev]))
         \<and> (createError (outputAbsPathOf ev config page)
               (removeStale config prev
                  (generateArticleFilename ev (pageTitleOrID page) (CreatedTime page)
                     (Markdown config)) fs) = Some e
             \<longrightarrow> fst (handlePage ev config page blocks prev fs)
                   = Inl (Wrapped ''error generating blog post''
                            (Wrapped ''error create file'' e))
                 \<and> \<not> isFile (snd (handlePage ev config page blocks prev fs))
                        (Clean (Join [PostSavePath (Markdown config), prev])))"
proof -
  let ?rel = "generateArticleFilename ev (pageTitleOrID page) (CreatedTime page)
                (Markdown config)"
  let ?fs1 = "removeStale config prev ?rel fs"
  have gone: "\<not> isFile ?fs1 (Clean (Join [PostSavePath (Markdown config), prev]))"
    using assms by (rule removeStale_removes)
  have fails: "handlePage ev config page blocks prev fs
                 = (Inl (Wrapped ''error generating blog post''
                           (Wrapped ''error create file'' e)), ?fs1)"
    if "createError (outputAbsPathOf ev config page) ?fs1 = Some e"
    using generate_create_fails[OF that [unfolded outputAbsPathOf_def],
            of ev page blocks "Markdown config" "pageTitleOrID page"]
    by (simp add: handlePage_def Let_def)
  show ?thesis
    using gone fails by auto
qed

text \<open>The page p1, recorded under old.md, now has the output path
  2024-03-05/hello-world!.md with month grouping, in a directory that is not there.\<close>

definition groupedConfig :: Config where
  "groupedConfig = sampleConfig\<lparr>Markdown := sampleMarkdown\<lparr>GroupByMonth := True\<rparr>\<rparr>"

theorem handlePage_removes_stale_first_witness:
  "Incremental groupedConfig \<and> ''old.md'' \<noteq> []
   \<and> ''old.md'' \<noteq> generateArticleFilename offlineEnv
         (pageTitleOrID (titledPage ''p1'' ''Name'' ''Hello World!'' 1709600000))
         (CreatedTime (titledPage ''p1'' ''Name'' ''Hello World!'' 1709600000))
         (Markdown groupedConfig)
   \<and> isFile (fsWith [(''posts/old.md'', ''text'')] [''posts''])
        (Clean (Join [PostSavePath (Markdown groupedConfig), ''old.md'']))
   \<and> fst (handlePage offlineEnv groupedConfig
             (titledPage ''p1'' ''Name'' ''Hello World!'' 1709600000) [] ''old.md''
             (fsWith [(''posts/old.md'', ''text'')] [''posts'']))
       = Inl (Wrapped ''error generating blog post'' (Wrapped ''error create file'' ENOENT))
   \<and> \<not> isFile (snd (handlePage offlineEnv groupedConfig
                      (titledPage ''p1'' ''Name'' ''Hello World!'' 1709600000) [] ''old.md''
                      (fsWith [(''posts/old.md'', ''text'')] [''posts''])))
          (Clean (Join [PostSavePath (Markdown groupedConfig), ''old.md'']))"
proof -
  let ?p = "titledPage ''p1'' ''Name'' ''Hello World!'' 1709600000"
  let ?fs = "fsWith [(''posts/old.md'', ''text'')] [''posts'']"
  have a: "Incremental groupedConfig" by code_simp
  have b: "''old.md'' \<noteq> []" by simp
  have c: "''old.md'' \<noteq> generateArticleFilename offlineEnv (pageTitleOrID ?p)
              (CreatedTime ?p) (Markdown groupedConfig)"
    by code_simp
  have d: "isFile ?fs (Clean (Join [PostSavePath (Markdown groupedConfig), ''old.md'']))"
    by code_simp
  have e: "createError (outputAbsPathOf offlineEnv groupedConfig ?p)
             (removeStale groupedConfig ''old.md''
                (generateArticleFilename offlineEnv (pageTitleOrID ?p) (CreatedTime ?p)
                   (Markdown groupedConfig)) ?fs) = Some ENOENT"
    by code_simp
  show ?thesis
    using handlePage_removes_stale_first[OF a b c d, of ENOENT "[]"] a b c d e
    by simp
qed

text \<open>With the network down, generating the page p1 with an image block fails. The
  file recorded for it, posts/old.md, was there before handlePage and is not there after
  it has failed.\<close>

theorem stale_file_removed_before_failure_counterexample:
  "isFile (fsWith [(''posts/old.md'', ''text'')] [''posts'']) ''posts/old.md''
   \<and> fst (handlePage offlineEnv sampleConfig
             (titledPage ''p1'' ''Name'' ''Hello World!'' 1709600000) [imageBlock] ''old.md''
             (fsWith [(''posts/old.md'', ''text'')] [''posts'']))
       = Inl (Wrapped ''error generating blog post'' (External ''offline''))
   \<and> \<not> isFile (snd (handlePage offlineEnv sampleConfig
                      (titledPage ''p1'' ''Name'' ''Hello World!'' 1709600000) [imageBlock]
                      ''old.md'' (fsWith [(''posts/old.md'', ''text'')] [''posts''])))
          ''posts/old.md''"
  by code_simp

subsection \<open>Dry run\<close>

lemma MkdirAll_files: "files (snd (MkdirAll p fs)) = files fs"
  by (simp add: MkdirAll_def)

lemma MkdirAll_dirs:
  "dirs (snd (MkdirAll p fs)) \<subseteq> dirs fs \<union> set (pathPrefixes p)"
  by (simp add: MkdirAll_def)

text \<open>A dry run always returns, in the parallel mode too. It writes and removes no
  file, the cache file included; the directories it may add are the post directory and
  the directories above it.\<close>

lemma Run_dryRun_frame:
  "\<exists>err fs'. Run ev config filterArgs since True fs = Some (err, fs')
      \<and> files fs' = files fs
      \<and> dirs fs' \<subseteq> dirs fs \<union> set (pathPrefixes (PostSavePath (Markdown config)))"
proof -
  obtain mk fs1 where mk: "MkdirAll (PostSavePath (Markdown config)) fs = (mk, fs1)"
    by (cases "MkdirAll (PostSavePath (Markdown config)) fs") auto
  have f: "files fs1 = files fs"
    using MkdirAll_files[of "PostSavePath (Markdown config)" fs] mk by simp
  have d: "dirs fs1 \<subseteq> dirs fs \<union> set (pathPrefixes (PostSavePath (Markdown config)))"
    using MkdirAll_dirs[of "PostSavePath (Markdown config)" fs] mk by simp
  have "\<exists>err. Run_prepare ev config filterArgs since True fs = (Returned err, fs1)"
    using mk
    by (auto simp: Run_prepare_def Let_def split: sum.splits prod.splits)
  then show ?thesis
    using f d by (auto simp: Run_def)
qed

text \<open>The Notion database answers with the page p1.\<close>

definition onePageEnv :: env where
  "onePageEnv =
     offlineEnv\<lparr>queryDatabase :=
       (\<lambda>_. Inr [titledPage ''p1'' ''Name'' ''Hello World!'' 1709600000])\<rparr>"

text \<open>
  Claim C1, at the input where the code departs from it. A dry run returns without an
  error and writes no file, but the post directory, which was not there, has been
  created: Run calls os.MkdirAll before it looks at the dry-run flag, which only
  decides whether a failure of that call is returned.
\<close>

theorem dryRun_creates_post_directory:
  "''posts'' \<notin> dirs emptyFs
   \<and> map_option fst (Run onePageEnv sampleConfig [] None True emptyFs) = Some None
   \<and> ''posts'' \<in> dirs (snd (the (Run onePageEnv sampleConfig [] None True emptyFs)))
   \<and> \<not> isFile (snd (the (Run onePageEnv sampleConfig [] None True emptyFs))) ''cache.json''
   \<and> \<not> isFile (snd (the (Run onePageEnv sampleConfig [] None True emptyFs)))
          ''posts/hello-world!.md''"
  by code_simp

end
